theory Spec2Isabelle
  imports Complex_Main "HOL-Library.Word" "HOL-Library.Signed_Division"
begin

section \<open>Data model\<close>

text \<open>
  The program is a ray tracer over spheres (main.cpp).  Its numbers are C++ \<^verbatim>\<open>float\<close>s;
  here a \<^verbatim>\<open>float\<close> is a real number: arithmetic is exact, there is no rounding, no NaN
  and no infinity.  The constants of the source are kept as they are written there
  (\<^verbatim>\<open>numeric_limits<float>::max()\<close>, \<^verbatim>\<open>3.1415F\<close>, \<^verbatim>\<open>-1U\<close>).  Indices are C++
  \<^verbatim>\<open>unsigned\<close>, that is 32-bit words.  A second model, further down, has the same
  functions over floating-point values with the arithmetic as a parameter; the
  properties of \<^verbatim>\<open>trace\<close> that depend on the outcome of a comparison are stated there.
\<close>

datatype vec3 = Vec3 (vx: real) (vy: real) (vz: real)

record Sphere =
  radius :: real
  center :: vec3

record Ray =
  origin :: vec3
  direction :: vec3

record Intersection =
  sphere_index :: "32 word"
  distance :: real

subsection \<open>The operations of glm used by the program\<close>

definition vadd :: "vec3 \<Rightarrow> vec3 \<Rightarrow> vec3" where
  "vadd a b = Vec3 (vx a + vx b) (vy a + vy b) (vz a + vz b)"

definition vsub :: "vec3 \<Rightarrow> vec3 \<Rightarrow> vec3" where
  "vsub a b = Vec3 (vx a - vx b) (vy a - vy b) (vz a - vz b)"

definition vneg :: "vec3 \<Rightarrow> vec3" where
  "vneg a = Vec3 (- vx a) (- vy a) (- vz a)"

text \<open>\<^verbatim>\<open>vec3 * float\<close> and \<^verbatim>\<open>vec3 + float\<close> work on every component.\<close>

definition vscale :: "vec3 \<Rightarrow> real \<Rightarrow> vec3" where
  "vscale a k = Vec3 (vx a * k) (vy a * k) (vz a * k)"

definition vadds :: "vec3 \<Rightarrow> real \<Rightarrow> vec3" where
  "vadds a k = Vec3 (vx a + k) (vy a + k) (vz a + k)"

definition dot :: "vec3 \<Rightarrow> vec3 \<Rightarrow> real" where
  "dot a b = vx a * vx b + vy a * vy b + vz a * vz b"

text \<open>
  \<^verbatim>\<open>glm::normalize(v)\<close> is \<^verbatim>\<open>v * inversesqrt(dot(v, v))\<close>.  At the zero vector the
  program divides by zero; the model's division gives 0 there.
\<close>

definition normalize_vec :: "vec3 \<Rightarrow> vec3" where
  "normalize_vec v = vscale v (1 / sqrt (dot v v))"

text \<open>\<^verbatim>\<open>glm::reflect(I, N)\<close> is \<^verbatim>\<open>I - N * dot(N, I) * 2\<close>.\<close>

definition reflect :: "vec3 \<Rightarrow> vec3 \<Rightarrow> vec3" where
  "reflect i n = vsub i (vscale (vscale n (dot n i)) 2)"

section \<open>The intersector: trace\<close>

text \<open>\<^verbatim>\<open>std::numeric_limits<float>::max()\<close>, the largest finite float.\<close>

definition FLT_MAX :: real where
  "FLT_MAX = (2 - 1 / 2 ^ 23) * 2 ^ 127"

text \<open>The body of the loop of \<^verbatim>\<open>trace\<close> (lines 42 to 57), for the sphere at index \<open>i\<close>.\<close>

definition trace_body :: "Ray \<Rightarrow> Sphere \<Rightarrow> 32 word \<Rightarrow> Intersection \<Rightarrow> Intersection" where
  "trace_body ray sphere i nearest =
     (let oc = vsub (center sphere) (origin ray);
          d = dot (direction ray) oc
      in if d < 0 then nearest
         else
           let d2 = dot oc oc - d * d;
               r2 = radius sphere * radius sphere
           in if d2 > r2 then nearest
              else
                let dst = d - sqrt (r2 - d2)
                in if dst < distance nearest
                   then \<lparr>sphere_index = i, distance = dst\<rparr>
                   else nearest)"

text \<open>
  The loop \<^verbatim>\<open>for (auto i = 0U; i < spheres.size(); ++i)\<close>.  The counter is a 32-bit
  unsigned and wraps, the size is a \<^verbatim>\<open>size_t\<close>: on a vector of \<open>2 ^ 32\<close> spheres or
  more the loop never ends, which is the value \<open>None\<close> here.
\<close>

partial_function (option) trace_loop ::
  "Ray \<Rightarrow> Sphere list \<Rightarrow> 32 word \<Rightarrow> Intersection \<Rightarrow> Intersection option" where
  "trace_loop ray spheres i nearest =
     (if unat i < length spheres
      then trace_loop ray spheres (i + 1) (trace_body ray (spheres ! unat i) i nearest)
      else Some nearest)"

text \<open>
  \<^verbatim>\<open>trace\<close> returns a \<^verbatim>\<open>std::optional<Intersection>\<close>: the inner option.  The outer
  option is \<open>None\<close> when the call has no result (it does not return).
\<close>

definition trace :: "Ray \<Rightarrow> Sphere list \<Rightarrow> Intersection option option" where
  "trace ray spheres =
     (case trace_loop ray spheres 0 \<lparr>sphere_index = - 1, distance = FLT_MAX\<rparr> of
        None \<Rightarrow> None
      | Some nearest \<Rightarrow>
          Some (if sphere_index nearest \<noteq> - 1 then Some nearest else None))"

section \<open>The shader: ray_cast\<close>

text \<open>
  \<^verbatim>\<open>std::atan2(y, x)\<close> on reals (the two zeros of a float are one number here),
  \<^verbatim>\<open>std::acos\<close> is \<^const>\<open>arccos\<close>, \<^verbatim>\<open>std::powf(b, 32)\<close> is \<open>b ^ 32\<close>.
\<close>

definition atan2 :: "real \<Rightarrow> real \<Rightarrow> real" where
  "atan2 b a =
     (if 0 < a then arctan (b / a)
      else if a < 0 then (if 0 \<le> b then arctan (b / a) + pi else arctan (b / a) - pi)
      else if 0 < b then pi / 2
      else if b < 0 then - (pi / 2)
      else 0)"

text \<open>\<^verbatim>\<open>static_cast<int>\<close> of a float drops the fraction: it rounds towards zero.\<close>

definition to_int :: "real \<Rightarrow> int" where
  "to_int r = (if 0 \<le> r then \<lfloor>r\<rfloor> else \<lceil>r\<rceil>)"

text \<open>The literal \<^verbatim>\<open>3.1415F\<close> that the program divides by where the formulas have \<open>\<pi>\<close>.\<close>

definition PI_F :: real where
  "PI_F = 3.1415"

text \<open>
  Lines 79 to 81: the texture coordinates of a normal and the checker pattern;
  \<open>pattern_factor\<close> is the multiplier \<^verbatim>\<open>(pattern ? 0.5F : 1.0F)\<close> of lines 87 and 94.
\<close>

definition texture_x :: "vec3 \<Rightarrow> real" where
  "texture_x normal = (1 + atan2 (vz normal) (vx normal) / PI_F) * 0.5"

definition texture_y :: "vec3 \<Rightarrow> real" where
  "texture_y normal = arccos (vy normal) / PI_F"

definition pattern :: "vec3 \<Rightarrow> bool" where
  "pattern normal \<longleftrightarrow>
     (to_int (texture_x normal * 10) + to_int (texture_y normal * 10)) smod 2 = 0"

definition pattern_factor :: "vec3 \<Rightarrow> real" where
  "pattern_factor normal = (if pattern normal then 0.5 else 1.0)"

definition light_dir :: vec3 where
  "light_dir = normalize_vec (Vec3 1 (- 1) (- 1))"

definition ambient :: vec3 where
  "ambient = Vec3 0.1 0.1 0.1"

text \<open>
  \<^verbatim>\<open>ray_cast\<close>, lines 68 to 98.  The result is \<open>None\<close> when a call of \<^verbatim>\<open>trace\<close> has
  no result, and when \<^verbatim>\<open>spheres[intersection->sphere_index]\<close>, which the program does
  not guard, would read outside the vector.
\<close>

definition ray_cast :: "Ray \<Rightarrow> Sphere list \<Rightarrow> vec3 option" where
  "ray_cast ray spheres =
     (case trace ray spheres of
        None \<Rightarrow> None
      | Some None \<Rightarrow> Some (Vec3 0 0 0)
      | Some (Some intersection) \<Rightarrow>
          if \<not> unat (sphere_index intersection) < length spheres then None
          else
            let sphere = spheres ! unat (sphere_index intersection);
                dst = distance intersection;
                point = vadd (origin ray) (vscale (direction ray) dst);
                normal = normalize_vec (vsub point (center sphere));
                factor = pattern_factor normal;
                shadow_ray = \<lparr>origin = point, direction = vneg light_dir\<rparr>
            in case trace shadow_ray spheres of
                 None \<Rightarrow> None
               | Some (Some shadow_intersection) \<Rightarrow> Some (vscale ambient factor)
               | Some None \<Rightarrow>
                   let diffuse = max 0 (dot normal (vneg light_dir)) * 0.8;
                       reflection = reflect (direction ray) normal;
                       specular = max 0 (dot reflection (vneg light_dir)) ^ 32 * 0.5
                   in Some (vadds (vscale (vadds ambient diffuse) factor) specular))"

section \<open>The frame renderer: render\<close>

definition fov :: real where
  "fov = PI_F / 3"

text \<open>
  Lines 111 to 115: the camera ray of the pixel \<open>(x, y)\<close>.  The source fixes
  \<^verbatim>\<open>width = 1280U\<close> and \<^verbatim>\<open>height = 720U\<close>; they are parameters here, so that the
  loops can be stated for any frame.  \<^verbatim>\<open>Ray{}\<close> has the origin \<open>(0, 0, 0)\<close>.
\<close>

definition pixel_ray :: "nat \<Rightarrow> nat \<Rightarrow> nat \<Rightarrow> nat \<Rightarrow> Ray" where
  "pixel_ray width height x y =
     (let aspect_ratio = real width / real height
      in \<lparr>origin = Vec3 0 0 0,
          direction = normalize_vec (Vec3
            ((2 * (real x + 0.5) / real width - 1) * aspect_ratio)
            (1 - 2 * (real y + 0.5) / real height)
            (- 1 / tan (fov / 2)))\<rparr>)"

text \<open>The inner loop over \<open>x\<close> and the outer loop over \<open>y\<close>, writing \<^verbatim>\<open>image[y * width + x]\<close>.\<close>

function render_x ::
  "nat \<Rightarrow> nat \<Rightarrow> Sphere list \<Rightarrow> nat \<Rightarrow> nat \<Rightarrow> vec3 list \<Rightarrow> vec3 list option" where
  "render_x width height spheres y x img =
     (if x < width
      then case ray_cast (pixel_ray width height x y) spheres of
             None \<Rightarrow> None
           | Some color \<Rightarrow>
               render_x width height spheres y (Suc x) (img[y * width + x := color])
      else Some img)"
  by pat_completeness auto
termination
  by (relation "measure (\<lambda>(width, height, spheres, y, x, img). width - x)") auto

function render_y ::
  "nat \<Rightarrow> nat \<Rightarrow> Sphere list \<Rightarrow> nat \<Rightarrow> vec3 list \<Rightarrow> vec3 list option" where
  "render_y width height spheres y img =
     (if y < height
      then case render_x width height spheres y 0 img of
             None \<Rightarrow> None
           | Some img' \<Rightarrow> render_y width height spheres (Suc y) img'
      else Some img)"
  by pat_completeness auto
termination
  by (relation "measure (\<lambda>(width, height, spheres, y, img). height - y)") auto

text \<open>
  The frame that \<^verbatim>\<open>render\<close> hands to \<^verbatim>\<open>save_image\<close>: a vector of
  \<^verbatim>\<open>width * height\<close> colours, filled by the two loops.
\<close>

definition render_frame :: "nat \<Rightarrow> nat \<Rightarrow> Sphere list \<Rightarrow> vec3 list option" where
  "render_frame width height spheres =
     render_y width height spheres 0 (replicate (width * height) (Vec3 0 0 0))"

definition render :: "Sphere list \<Rightarrow> vec3 list option" where
  "render spheres = render_frame 1280 720 spheres"

section \<open>Notions used to state the properties\<close>

text \<open>
  The per-sphere test of \<^verbatim>\<open>trace\<close> (lines 43 to 53) on its own: \<open>None\<close> when the
  sphere is skipped by one of the two \<^verbatim>\<open>continue\<close>s, the candidate distance otherwise.
\<close>

definition candidate :: "Ray \<Rightarrow> Sphere \<Rightarrow> real option" where
  "candidate ray sphere =
     (let oc = vsub (center sphere) (origin ray);
          d = dot (direction ray) oc;
          d2 = dot oc oc - d * d;
          r2 = radius sphere * radius sphere
      in if d < 0 \<or> d2 > r2 then None else Some (d - sqrt (r2 - d2)))"

text \<open>
  The loop invariant of \<^verbatim>\<open>trace\<close> after the spheres below index \<open>k\<close>: either nothing
  has been recorded, and no candidate so far is below \<open>FLT_MAX\<close>; or \<open>nearest\<close> holds
  the first index that has the least candidate so far.
\<close>

definition nearest_upto :: "Ray \<Rightarrow> Sphere list \<Rightarrow> nat \<Rightarrow> Intersection \<Rightarrow> bool" where
  "nearest_upto ray spheres k n \<longleftrightarrow>
     (sphere_index n = - 1 \<and> distance n = FLT_MAX \<and>
        (\<forall>j<k. \<forall>d. candidate ray (spheres ! j) = Some d \<longrightarrow> \<not> d < FLT_MAX))
     \<or> (unat (sphere_index n) < k \<and>
        candidate ray (spheres ! unat (sphere_index n)) = Some (distance n) \<and>
        distance n < FLT_MAX \<and>
        (\<forall>j<k. \<forall>d. candidate ray (spheres ! j) = Some d \<longrightarrow>
           distance n \<le> d \<and> (d = distance n \<longrightarrow> unat (sphere_index n) \<le> j)))"

text \<open>The point of the ray at the parameter \<open>t\<close> lies on the surface of the sphere.\<close>

definition on_sphere :: "Ray \<Rightarrow> Sphere \<Rightarrow> real \<Rightarrow> bool" where
  "on_sphere ray sphere t \<longleftrightarrow>
     (let pc = vsub (vadd (origin ray) (vscale (direction ray) t)) (center sphere)
      in dot pc pc = radius sphere * radius sphere)"

text \<open>The point \<open>p\<close> lies strictly outside the sphere.\<close>

definition outside :: "vec3 \<Rightarrow> Sphere \<Rightarrow> bool" where
  "outside p sphere \<longleftrightarrow>
     (let oc = vsub (center sphere) p in dot oc oc > radius sphere * radius sphere)"

subsection \<open>Sample rays and spheres\<close>

definition ray_z :: Ray where
  "ray_z = \<lparr>origin = Vec3 0 0 0, direction = Vec3 0 0 (- 1)\<rparr>"

definition sphere_a :: Sphere where
  "sphere_a = \<lparr>radius = 1, center = Vec3 0 0 (- 5)\<rparr>"

definition sphere_around :: Sphere where
  "sphere_around = \<lparr>radius = 5, center = Vec3 0 0 (- 3)\<rparr>"

definition sphere_far :: Sphere where
  "sphere_far = \<lparr>radius = 1, center = Vec3 0 0 (- 100)\<rparr>"

definition sphere_big :: Sphere where
  "sphere_big = \<lparr>radius = 5, center = Vec3 0 3 (- 20)\<rparr>"

text \<open>A ray that starts on the surface of \<open>sphere_a\<close> and is aimed at its centre.\<close>

definition ray_surface :: Ray where
  "ray_surface = \<lparr>origin = Vec3 0 0 (- 4), direction = Vec3 0 0 (- 1)\<rparr>"

text \<open>
  The value of every channel of the pixel where \<open>ray_z\<close> hits \<open>sphere_a\<close>: the normal
  there is \<open>(0, 0, 1)\<close> and the point is lit.
\<close>

definition lit_a :: real where
  "lit_a = (0.1 + 1 / sqrt 3 * 0.8) * (if pattern (Vec3 0 0 1) then 0.5 else 1)
           + (1 / sqrt 3) ^ 32 * 0.5"

subsection \<open>The checker pattern as the specification words it\<close>





text \<open>The unit normal at the same distance on the other side of the seam.\<close>

definition normal_below_seam :: vec3 where
  "normal_below_seam = Vec3 (- (9999999999 / 10000000001)) 0 (- (200000 / 10000000001))"

section \<open>The same functions over floating-point values\<close>

text \<open>
  Where a property depends on which branch a comparison takes, exact reals are not the
  program: a sum can round, a product can overflow to an infinity, and a difference of
  infinities is a NaN that compares false with everything.  This second model keeps
  \<^verbatim>\<open>trace\<close> and \<^verbatim>\<open>ray_cast\<close> as they are written and changes the numbers only.  A
  value is a finite number, an infinity or NaN (the two zeros are one value).  The
  comparison \<^verbatim>\<open><\<close> is the one of IEEE 754, which is exact.  The operations that round
  are parameters, one operation for each operator and library call of the source: a
  theorem stated for every \<open>ar\<close> holds whatever they compute, so for binary32 too.
\<close>

datatype fval = Fin real | PInf | NInf | NaN

fun flt :: "fval \<Rightarrow> fval \<Rightarrow> bool" where
  "flt (Fin a) (Fin b) = (a < b)"
| "flt (Fin a) PInf = True"
| "flt NInf (Fin b) = True"
| "flt NInf PInf = True"
| "flt _ _ = False"

fun fneg :: "fval \<Rightarrow> fval" where
  "fneg (Fin a) = Fin (- a)"
| "fneg PInf = NInf"
| "fneg NInf = PInf"
| "fneg NaN = NaN"

text \<open>\<^verbatim>\<open>std::max(a, b)\<close> is \<^verbatim>\<open>(a < b) ? b : a\<close>.\<close>

definition fmax :: "fval \<Rightarrow> fval \<Rightarrow> fval" where
  "fmax a b = (if flt a b then b else a)"

record arith =
  f_add :: "fval \<Rightarrow> fval \<Rightarrow> fval"
  f_sub :: "fval \<Rightarrow> fval \<Rightarrow> fval"
  f_mul :: "fval \<Rightarrow> fval \<Rightarrow> fval"
  f_div :: "fval \<Rightarrow> fval \<Rightarrow> fval"
  f_sqrt :: "fval \<Rightarrow> fval"
  f_atan2 :: "fval \<Rightarrow> fval \<Rightarrow> fval"
  f_acos :: "fval \<Rightarrow> fval"
  f_powf :: "fval \<Rightarrow> fval \<Rightarrow> fval"
  f_int :: "fval \<Rightarrow> int"

datatype vec3_f = Vec3_f (fx: fval) (fy: fval) (fz: fval)

record Sphere_f =
  radius_f :: fval
  center_f :: vec3_f

record Ray_f =
  origin_f :: vec3_f
  direction_f :: vec3_f

record Intersection_f =
  sphere_index_f :: "32 word"
  distance_f :: fval

definition vadd_f :: "arith \<Rightarrow> vec3_f \<Rightarrow> vec3_f \<Rightarrow> vec3_f" where
  "vadd_f ar a b = Vec3_f (f_add ar (fx a) (fx b)) (f_add ar (fy a) (fy b)) (f_add ar (fz a) (fz b))"

definition vsub_f :: "arith \<Rightarrow> vec3_f \<Rightarrow> vec3_f \<Rightarrow> vec3_f" where
  "vsub_f ar a b = Vec3_f (f_sub ar (fx a) (fx b)) (f_sub ar (fy a) (fy b)) (f_sub ar (fz a) (fz b))"

definition vneg_f :: "vec3_f \<Rightarrow> vec3_f" where
  "vneg_f a = Vec3_f (fneg (fx a)) (fneg (fy a)) (fneg (fz a))"

definition vscale_f :: "arith \<Rightarrow> vec3_f \<Rightarrow> fval \<Rightarrow> vec3_f" where
  "vscale_f ar a k = Vec3_f (f_mul ar (fx a) k) (f_mul ar (fy a) k) (f_mul ar (fz a) k)"

definition vadds_f :: "arith \<Rightarrow> vec3_f \<Rightarrow> fval \<Rightarrow> vec3_f" where
  "vadds_f ar a k = Vec3_f (f_add ar (fx a) k) (f_add ar (fy a) k) (f_add ar (fz a) k)"

text \<open>\<^verbatim>\<open>glm::dot\<close> multiplies the components and adds the products from left to right.\<close>

definition dot_f :: "arith \<Rightarrow> vec3_f \<Rightarrow> vec3_f \<Rightarrow> fval" where
  "dot_f ar a b =
     f_add ar (f_add ar (f_mul ar (fx a) (fx b)) (f_mul ar (fy a) (fy b))) (f_mul ar (fz a) (fz b))"

definition normalize_f :: "arith \<Rightarrow> vec3_f \<Rightarrow> vec3_f" where
  "normalize_f ar v = vscale_f ar v (f_div ar (Fin 1) (f_sqrt ar (dot_f ar v v)))"

definition reflect_f :: "arith \<Rightarrow> vec3_f \<Rightarrow> vec3_f \<Rightarrow> vec3_f" where
  "reflect_f ar i n = vsub_f ar i (vscale_f ar (vscale_f ar n (dot_f ar n i)) (Fin 2))"

text \<open>Lines 42 to 57, with \<^verbatim>\<open>d2 > r2\<close> read as \<^verbatim>\<open>r2 < d2\<close>.\<close>

definition trace_body_f ::
  "arith \<Rightarrow> Ray_f \<Rightarrow> Sphere_f \<Rightarrow> 32 word \<Rightarrow> Intersection_f \<Rightarrow> Intersection_f" where
  "trace_body_f ar ray sphere i nearest =
     (let oc = vsub_f ar (center_f sphere) (origin_f ray);
          d = dot_f ar (direction_f ray) oc
      in if flt d (Fin 0) then nearest
         else
           let d2 = f_sub ar (dot_f ar oc oc) (f_mul ar d d);
               r2 = f_mul ar (radius_f sphere) (radius_f sphere)
           in if flt r2 d2 then nearest
              else
                let dst = f_sub ar d (f_sqrt ar (f_sub ar r2 d2))
                in if flt dst (distance_f nearest)
                   then \<lparr>sphere_index_f = i, distance_f = dst\<rparr>
                   else nearest)"

partial_function (option) trace_loop_f ::
  "arith \<Rightarrow> Ray_f \<Rightarrow> Sphere_f list \<Rightarrow> 32 word \<Rightarrow> Intersection_f \<Rightarrow> Intersection_f option" where
  "trace_loop_f ar ray spheres i nearest =
     (if unat i < length spheres
      then trace_loop_f ar ray spheres (i + 1) (trace_body_f ar ray (spheres ! unat i) i nearest)
      else Some nearest)"

definition trace_f :: "arith \<Rightarrow> Ray_f \<Rightarrow> Sphere_f list \<Rightarrow> Intersection_f option option" where
  "trace_f ar ray spheres =
     (case trace_loop_f ar ray spheres 0 \<lparr>sphere_index_f = - 1, distance_f = Fin FLT_MAX\<rparr> of
        None \<Rightarrow> None
      | Some nearest \<Rightarrow>
          Some (if sphere_index_f nearest \<noteq> - 1 then Some nearest else None))"

text \<open>
  The literals of \<^verbatim>\<open>ray_cast\<close> as the binary32 values they denote: \<^verbatim>\<open>3.1415F\<close>,
  \<^verbatim>\<open>0.8F\<close>, and 0.1 converted to \<^verbatim>\<open>float\<close>; 0.5, 1, 2, 10 and 32 are exact.
\<close>

definition PI_F32 :: fval where
  "PI_F32 = Fin (6588203 / 2097152)"

definition lit_08 :: fval where
  "lit_08 = Fin (13421773 / 16777216)"

definition lit_01 :: fval where
  "lit_01 = Fin (13421773 / 134217728)"

definition pattern_f :: "arith \<Rightarrow> vec3_f \<Rightarrow> bool" where
  "pattern_f ar normal \<longleftrightarrow>
     (let texture_x = f_mul ar (f_add ar (Fin 1)
                        (f_div ar (f_atan2 ar (fz normal) (fx normal)) PI_F32)) (Fin 0.5);
          texture_y = f_div ar (f_acos ar (fy normal)) PI_F32
      in (f_int ar (f_mul ar texture_x (Fin 10)) + f_int ar (f_mul ar texture_y (Fin 10)))
           smod 2 = 0)"

definition ray_cast_f :: "arith \<Rightarrow> Ray_f \<Rightarrow> Sphere_f list \<Rightarrow> vec3_f option" where
  "ray_cast_f ar ray spheres =
     (case trace_f ar ray spheres of
        None \<Rightarrow> None
      | Some None \<Rightarrow> Some (Vec3_f (Fin 0) (Fin 0) (Fin 0))
      | Some (Some intersection) \<Rightarrow>
          if \<not> unat (sphere_index_f intersection) < length spheres then None
          else
            let sphere = spheres ! unat (sphere_index_f intersection);
                dst = distance_f intersection;
                point = vadd_f ar (origin_f ray) (vscale_f ar (direction_f ray) dst);
                light = normalize_f ar (Vec3_f (Fin 1) (Fin (- 1)) (Fin (- 1)));
                normal = normalize_f ar (vsub_f ar point (center_f sphere));
                factor = (if pattern_f ar normal then Fin 0.5 else Fin 1);
                amb = Vec3_f lit_01 lit_01 lit_01;
                shadow_ray = \<lparr>origin_f = point, direction_f = vneg_f light\<rparr>
            in case trace_f ar shadow_ray spheres of
                 None \<Rightarrow> None
               | Some (Some shadow_intersection) \<Rightarrow> Some (vscale_f ar amb factor)
               | Some None \<Rightarrow>
                   let diffuse = f_mul ar (fmax (Fin 0) (dot_f ar normal (vneg_f light))) lit_08;
                       reflection = reflect_f ar (direction_f ray) normal;
                       specular = f_mul ar
                         (f_powf ar (fmax (Fin 0) (dot_f ar reflection (vneg_f light))) (Fin 32))
                         (Fin 0.5)
                   in Some (vadds_f ar (vscale_f ar (vadds_f ar amb diffuse) factor) specular))"

text \<open>The per-sphere test on its own, as \<open>candidate\<close> above.\<close>

definition candidate_f :: "arith \<Rightarrow> Ray_f \<Rightarrow> Sphere_f \<Rightarrow> fval option" where
  "candidate_f ar ray sphere =
     (let oc = vsub_f ar (center_f sphere) (origin_f ray);
          d = dot_f ar (direction_f ray) oc;
          d2 = f_sub ar (dot_f ar oc oc) (f_mul ar d d);
          r2 = f_mul ar (radius_f sphere) (radius_f sphere)
      in if flt d (Fin 0) \<or> flt r2 d2 then None
         else Some (f_sub ar d (f_sqrt ar (f_sub ar r2 d2))))"

text \<open>
  The loop invariant of \<^verbatim>\<open>trace\<close> after the spheres below index \<open>k\<close>: nothing has been
  recorded and no candidate so far compares below \<open>FLT_MAX\<close>; or \<open>nearest\<close> holds an
  index whose candidate no candidate so far is below, and the candidates at lower
  indices are above it or NaN.
\<close>

definition nearest_upto_f ::
  "arith \<Rightarrow> Ray_f \<Rightarrow> Sphere_f list \<Rightarrow> nat \<Rightarrow> Intersection_f \<Rightarrow> bool" where
  "nearest_upto_f ar ray spheres k n \<longleftrightarrow>
     (sphere_index_f n = - 1 \<and> distance_f n = Fin FLT_MAX \<and>
        (\<forall>j<k. \<forall>d. candidate_f ar ray (spheres ! j) = Some d \<longrightarrow> \<not> flt d (Fin FLT_MAX)))
     \<or> (unat (sphere_index_f n) < k \<and>
        candidate_f ar ray (spheres ! unat (sphere_index_f n)) = Some (distance_f n) \<and>
        flt (distance_f n) (Fin FLT_MAX) \<and>
        (\<forall>j<k. \<forall>d. candidate_f ar ray (spheres ! j) = Some d \<longrightarrow>
           \<not> flt d (distance_f n) \<and>
           (j < unat (sphere_index_f n) \<longrightarrow> flt (distance_f n) d \<or> d = NaN)))"

subsection \<open>The arithmetic of binary32\<close>

text \<open>
  One arithmetic to compute with, that of IEEE 754 binary32 with rounding to nearest,
  ties to even.  \<open>rnd32\<close> rounds a real number to 24 significant bits, or to a multiple of
  \<open>2 ^ - 149\<close> below \<open>2 ^ - 126\<close>; a rounded result beyond \<open>FLT_MAX\<close> is an infinity.
\<close>

definition round_even :: "real \<Rightarrow> int" where
  "round_even y =
     (let f = \<lfloor>y\<rfloor>;
          r = y - of_int f
      in if r < 1 / 2 then f
         else if 1 / 2 < r then f + 1
         else if even f then f else f + 1)"

definition rnd32 :: "real \<Rightarrow> real" where
  "rnd32 x =
     (if x = 0 then 0
      else
        let e = max \<lfloor>log 2 \<bar>x\<bar>\<rfloor> (- 126);
            u = 2 powr of_int (e - 23)
        in u * of_int (round_even (x / u)))"

definition fin32 :: "real \<Rightarrow> fval" where
  "fin32 r =
     (let q = rnd32 r
      in if FLT_MAX < q then PInf else if q < - FLT_MAX then NInf else Fin q)"

fun add_32 :: "fval \<Rightarrow> fval \<Rightarrow> fval" where
  "add_32 (Fin a) (Fin b) = fin32 (a + b)"
| "add_32 NaN _ = NaN"
| "add_32 _ NaN = NaN"
| "add_32 PInf NInf = NaN"
| "add_32 NInf PInf = NaN"
| "add_32 PInf _ = PInf"
| "add_32 _ PInf = PInf"
| "add_32 NInf _ = NInf"
| "add_32 _ NInf = NInf"

definition sub_32 :: "fval \<Rightarrow> fval \<Rightarrow> fval" where
  "sub_32 a b = add_32 a (fneg b)"

fun mul_32 :: "fval \<Rightarrow> fval \<Rightarrow> fval" where
  "mul_32 (Fin a) (Fin b) = fin32 (a * b)"
| "mul_32 NaN _ = NaN"
| "mul_32 _ NaN = NaN"
| "mul_32 (Fin a) b = (if a = 0 then NaN else if 0 < a then b else fneg b)"
| "mul_32 a (Fin b) = (if b = 0 then NaN else if 0 < b then a else fneg a)"
| "mul_32 PInf b = b"
| "mul_32 NInf b = fneg b"

fun div_32 :: "fval \<Rightarrow> fval \<Rightarrow> fval" where
  "div_32 (Fin a) (Fin b) =
     (if b = 0 then (if a = 0 then NaN else if 0 < a then PInf else NInf) else fin32 (a / b))"
| "div_32 NaN _ = NaN"
| "div_32 _ NaN = NaN"
| "div_32 (Fin a) b = Fin 0"
| "div_32 a (Fin b) = (if 0 \<le> b then a else fneg a)"
| "div_32 a b = NaN"

fun sqrt_32 :: "fval \<Rightarrow> fval" where
  "sqrt_32 (Fin a) = (if a < 0 then NaN else fin32 (sqrt a))"
| "sqrt_32 PInf = PInf"
| "sqrt_32 a = NaN"

text \<open>
  The functions of the C library are not part of IEEE 754.  They are taken here on
  finite operands, as the rounded values of the real functions; the conversion to
  \<^verbatim>\<open>int\<close> drops the fraction.  No theorem below evaluates them.
\<close>

fun atan2_32 :: "fval \<Rightarrow> fval \<Rightarrow> fval" where
  "atan2_32 (Fin b) (Fin a) = fin32 (atan2 b a)"
| "atan2_32 b a = NaN"

fun acos_32 :: "fval \<Rightarrow> fval" where
  "acos_32 (Fin a) = (if - 1 \<le> a \<and> a \<le> 1 then fin32 (arccos a) else NaN)"
| "acos_32 a = NaN"

fun powf_32 :: "fval \<Rightarrow> fval \<Rightarrow> fval" where
  "powf_32 (Fin a) (Fin b) =
     (if b = of_int \<lfloor>b\<rfloor> \<and> 0 \<le> b then fin32 (a ^ nat \<lfloor>b\<rfloor>)
      else if 0 \<le> a then fin32 (a powr b) else NaN)"
| "powf_32 a b = NaN"

fun int_32 :: "fval \<Rightarrow> int" where
  "int_32 (Fin a) = to_int a"
| "int_32 a = 0"

definition b32_ar :: arith where
  "b32_ar = \<lparr>f_add = add_32, f_sub = sub_32, f_mul = mul_32, f_div = div_32, f_sqrt = sqrt_32,
     f_atan2 = atan2_32, f_acos = acos_32, f_powf = powf_32, f_int = int_32\<rparr>"

subsection \<open>Sample rays and spheres over floating-point values\<close>

definition ray_z_f :: Ray_f where
  "ray_z_f = \<lparr>origin_f = Vec3_f (Fin 0) (Fin 0) (Fin 0),
              direction_f = Vec3_f (Fin 0) (Fin 0) (Fin (- 1))\<rparr>"

definition sphere_a_f :: Sphere_f where
  "sphere_a_f = \<lparr>radius_f = Fin 1, center_f = Vec3_f (Fin 0) (Fin 0) (Fin (- 5))\<rparr>"

definition sphere_b_f :: Sphere_f where
  "sphere_b_f = \<lparr>radius_f = Fin 2, center_f = Vec3_f (Fin 0) (Fin 0) (Fin (- 6))\<rparr>"

definition sphere_aside_f :: Sphere_f where
  "sphere_aside_f = \<lparr>radius_f = Fin 1, center_f = Vec3_f (Fin 0) (Fin 5) (Fin (- 5))\<rparr>"

definition sphere_far_f :: Sphere_f where
  "sphere_far_f = \<lparr>radius_f = Fin 1, center_f = Vec3_f (Fin 0) (Fin 0) (Fin (- 100))\<rparr>"

text \<open>A sphere straight ahead at the distance \<open>2 ^ 70\<close>, a binary32 value.\<close>

definition sphere_huge_f :: Sphere_f where
  "sphere_huge_f = \<lparr>radius_f = Fin 1, center_f = Vec3_f (Fin 0) (Fin 0) (Fin (- (2 ^ 70)))\<rparr>"

subsection \<open>Two spheres at which binary32 rounds\<close>

text \<open>
  The axis of \<open>ray_z\<close> passes \<open>sphere_skew\<close> at the distance 2 from its centre, twice
  its radius.  The origin of \<open>ray_z\<close> lies outside \<open>sphere_graze\<close>, by less than binary32
  resolves.  Each is given over the reals and over floating-point values, with the same
  numbers; the ray over floating-point values is \<open>ray_z_f\<close>.
\<close>

definition sphere_skew :: Sphere where
  "sphere_skew = \<lparr>radius = 1, center = Vec3 2 0 (- 8192)\<rparr>"

definition sphere_skew_f :: Sphere_f where
  "sphere_skew_f = \<lparr>radius_f = Fin 1, center_f = Vec3_f (Fin 2) (Fin 0) (Fin (- 8192))\<rparr>"

definition sphere_graze :: Sphere where
  "sphere_graze = \<lparr>radius = 4096, center = Vec3 1 0 (- 4096)\<rparr>"

definition sphere_graze_f :: Sphere_f where
  "sphere_graze_f = \<lparr>radius_f = Fin 4096, center_f = Vec3_f (Fin 1) (Fin 0) (Fin (- 4096))\<rparr>"

text \<open>
  The square of the distance from the centre of a sphere to the line of a ray whose
  direction is not the zero vector.
\<close>

definition line_distance2 :: "Ray \<Rightarrow> Sphere \<Rightarrow> real" where
  "line_distance2 ray sphere =
     (let oc = vsub (center sphere) (origin ray);
          d = direction ray
      in dot oc oc - (dot d oc)\<^sup>2 / dot d d)"

lemma trace_body_candidate:
  "trace_body ray s i n =
     (case candidate ray s of
        None \<Rightarrow> n
      | Some d \<Rightarrow> if d < distance n then \<lparr>sphere_index = i, distance = d\<rparr> else n)"
  by (simp add: trace_body_def candidate_def Let_def)

lemma nearest_upto_init:
  "nearest_upto ray spheres 0 \<lparr>sphere_index = - 1, distance = FLT_MAX\<rparr>"
  by (simp add: nearest_upto_def)

lemma unat_of_nat32: "k < 2 ^ 32 \<Longrightarrow> unat (of_nat k :: 32 word) = k"
  by (simp add: unat_of_nat)

lemma nearest_upto_step:
  assumes "k < 2 ^ 32" and "nearest_upto ray spheres k n"
  shows "nearest_upto ray spheres (Suc k) (trace_body ray (spheres ! k) (of_nat k) n)"
proof (cases "candidate ray (spheres ! k)")
  case None
  with assms(2) show ?thesis
    by (auto simp: trace_body_candidate nearest_upto_def less_Suc_eq)
next
  case (Some d)
  show ?thesis
  proof (cases "d < distance n")
    case True
    with Some assms show ?thesis
      by (auto simp: trace_body_candidate nearest_upto_def less_Suc_eq unat_of_nat32)
  next
    case False
    with Some assms show ?thesis
      by (auto simp: trace_body_candidate nearest_upto_def less_Suc_eq)
  qed
qed

lemma trace_loop_nearest:
  assumes "length spheres < 2 ^ 32"
  shows "k \<le> length spheres \<Longrightarrow> nearest_upto ray spheres k n \<Longrightarrow>
     \<exists>m. trace_loop ray spheres (of_nat k) n = Some m \<and>
         nearest_upto ray spheres (length spheres) m"
proof (induction "length spheres - k" arbitrary: k n)
  case 0
  then have "k = length spheres" by simp
  with assms 0 show ?case
    by (subst trace_loop.simps) (simp add: unat_of_nat32)
next
  case (Suc m)
  then have lt: "k < length spheres" by simp
  with assms have k32: "k < 2 ^ 32" by simp
  have step: "nearest_upto ray spheres (Suc k) (trace_body ray (spheres ! k) (of_nat k) n)"
    using nearest_upto_step [OF k32 Suc.prems(2)] .
  have "m = length spheres - Suc k" using Suc.hyps(2) by simp
  from Suc.hyps(1) [OF this _ step] lt
  obtain r where r: "trace_loop ray spheres (of_nat (Suc k))
        (trace_body ray (spheres ! k) (of_nat k) n) = Some r"
      "nearest_upto ray spheres (length spheres) r"
    by auto
  have "trace_loop ray spheres (of_nat k) n = Some r"
    using lt k32 r(1) by (subst trace_loop.simps) (simp add: unat_of_nat32 add.commute)
  with r(2) show ?case by blast
qed

lemma trace_loop_returns_bound:
  assumes "trace_loop ray spheres i n = Some r"
  shows "length spheres < 2 ^ 32"
proof (rule trace_loop.raw_induct [where P = "\<lambda>ray spheres i n r. length spheres < 2 ^ 32", OF _ assms])
  fix tl :: "Ray \<Rightarrow> Sphere list \<Rightarrow> 32 word \<Rightarrow> Intersection \<Rightarrow> Intersection option"
  fix ray spheres i n r
  assume IH: "\<And>ray spheres i n r. tl ray spheres i n = Some r \<Longrightarrow> length spheres < 2 ^ 32"
    and eq: "(if unat i < length spheres
          then tl ray spheres (i + 1) (trace_body ray (spheres ! unat i) i n)
          else Some n) = Some r"
  show "length spheres < 2 ^ 32"
  proof (cases "unat i < length spheres")
    case True
    with eq IH show ?thesis by simp
  next
    case False
    have "unat i < 2 ^ 32" using unsigned_less [of i] by simp
    with False show ?thesis by simp
  qed
qed

lemma trace_returns:
  assumes "length spheres < 2 ^ 32"
  shows "\<exists>m. trace_loop ray spheres 0 \<lparr>sphere_index = - 1, distance = FLT_MAX\<rparr> = Some m \<and>
     nearest_upto ray spheres (length spheres) m"
  using trace_loop_nearest [OF assms, of 0 ray, OF _ nearest_upto_init] by simp


lemma trace_Some_bound:
  assumes "trace ray spheres = Some r"
  shows "length spheres < 2 ^ 32"
proof -
  from assms obtain m where
    "trace_loop ray spheres 0 \<lparr>sphere_index = - 1, distance = FLT_MAX\<rparr> = Some m"
    by (auto simp: trace_def split: option.splits)
  then show ?thesis by (rule trace_loop_returns_bound)
qed

lemma unat_minus_one32: "unat (- 1 :: 32 word) = 2 ^ 32 - 1"
  by (simp add: unsigned_minus_1_eq_mask mask_eq_exp_minus_1)

lemma trace_cases:
  assumes "length spheres < 2 ^ 32"
  shows "(\<exists>n. trace ray spheres = Some (Some n) \<and>
            unat (sphere_index n) < length spheres \<and>
            candidate ray (spheres ! unat (sphere_index n)) = Some (distance n) \<and>
            distance n < FLT_MAX \<and>
            (\<forall>j<length spheres. \<forall>d. candidate ray (spheres ! j) = Some d \<longrightarrow>
               distance n \<le> d \<and> (d = distance n \<longrightarrow> unat (sphere_index n) \<le> j)))
       \<or> (trace ray spheres = Some None \<and>
            (\<forall>j<length spheres. \<forall>d. candidate ray (spheres ! j) = Some d \<longrightarrow> FLT_MAX \<le> d))"
proof -
  from trace_returns [OF assms, of ray] obtain m where
    m: "trace_loop ray spheres 0 \<lparr>sphere_index = - 1, distance = FLT_MAX\<rparr> = Some m"
    and inv: "nearest_upto ray spheres (length spheres) m"
    by blast
  show ?thesis
  proof (cases "sphere_index m = - 1")
    case True
    with inv assms have "\<forall>j<length spheres. \<forall>d. candidate ray (spheres ! j) = Some d \<longrightarrow> FLT_MAX \<le> d"
      by (auto simp: nearest_upto_def unat_minus_one32 not_less)
    moreover from True m have "trace ray spheres = Some None"
      by (simp add: trace_def)
    ultimately show ?thesis by blast
  next
    case False
    with m have "trace ray spheres = Some (Some m)"
      by (simp add: trace_def)
    with False inv show ?thesis
      by (auto simp: nearest_upto_def)
  qed
qed

lemma sqrt_sq: "0 \<le> a \<Longrightarrow> sqrt (a * a) = a"
  by (simp add: real_sqrt_mult_self)

lemma ray_point_expand:
  assumes "dot d d = 1"
  shows "dot (vsub (vadd p (vscale d t)) c) (vsub (vadd p (vscale d t)) c) =
     t\<^sup>2 - 2 * t * dot d (vsub c p) + dot (vsub c p) (vsub c p)"
proof -
  obtain px py pz where p: "p = Vec3 px py pz" by (cases p)
  obtain dx dy dz where d: "d = Vec3 dx dy dz" by (cases d)
  obtain cx cy cz where c: "c = Vec3 cx cy cz" by (cases c)
  from assms d have u: "dx * dx + dy * dy + dz * dz = 1" by (simp add: dot_def)
  have "(px + dx * t - cx) * (px + dx * t - cx) + (py + dy * t - cy) * (py + dy * t - cy)
        + (pz + dz * t - cz) * (pz + dz * t - cz)
      = (dx * dx + dy * dy + dz * dz) * t\<^sup>2
        - 2 * t * (dx * (cx - px) + dy * (cy - py) + dz * (cz - pz))
        + ((cx - px) * (cx - px) + (cy - py) * (cy - py) + (cz - pz) * (cz - pz))"
    by (simp add: algebra_simps power2_eq_square)
  also have "\<dots> = t\<^sup>2
        - 2 * t * (dx * (cx - px) + dy * (cy - py) + dz * (cz - pz))
        + ((cx - px) * (cx - px) + (cy - py) * (cy - py) + (cz - pz) * (cz - pz))"
    by (simp only: u mult_1)
  finally show ?thesis
    by (simp only: p d c vsub_def vadd_def vscale_def dot_def vec3.sel)
qed

lemma on_sphere_iff:
  assumes "dot (direction ray) (direction ray) = 1"
  shows "on_sphere ray sphere t \<longleftrightarrow>
     (t - dot (direction ray) (vsub (center sphere) (origin ray)))\<^sup>2 =
       radius sphere * radius sphere -
       (dot (vsub (center sphere) (origin ray)) (vsub (center sphere) (origin ray)) -
        dot (direction ray) (vsub (center sphere) (origin ray)) *
        dot (direction ray) (vsub (center sphere) (origin ray)))"
  unfolding on_sphere_def Let_def ray_point_expand [OF assms]
  by (auto simp: power2_eq_square algebra_simps)

lemma FLT_MAX_gt: "1000 < FLT_MAX"
  by (simp add: FLT_MAX_def)

lemma sqrt_16: "sqrt 16 = 4"
  using sqrt_sq [of 4] by simp

lemma sqrt_25: "sqrt 25 = 5"
  using sqrt_sq [of 5] by simp

lemma candidate_a: "candidate ray_z sphere_a = Some 4"
  by (simp add: candidate_def ray_z_def sphere_a_def vsub_def dot_def)

lemma candidate_around: "candidate ray_z sphere_around = Some (- 2)"
  by (simp add: candidate_def ray_z_def sphere_around_def vsub_def dot_def sqrt_25)

lemma candidate_far: "candidate ray_z sphere_far = Some 99"
  by (simp add: candidate_def ray_z_def sphere_far_def vsub_def dot_def)

lemma candidate_big: "candidate ray_z sphere_big = Some 16"
  by (simp add: candidate_def ray_z_def sphere_big_def vsub_def dot_def sqrt_16)

lemma trace_one:
  "trace ray [s] =
     Some (case candidate ray s of
             None \<Rightarrow> None
           | Some d \<Rightarrow> if d < FLT_MAX then Some \<lparr>sphere_index = 0, distance = d\<rparr> else None)"
  by (simp add: trace_def trace_loop.simps trace_body_candidate split: option.splits)

section \<open>The per-sphere test in exact arithmetic\<close>

text \<open>
  With exact reals and a direction of length 1 the candidate distance is a root of the
  sphere quadratic, and the smaller one.
\<close>

lemma candidate_root:
  assumes unit: "dot (direction ray) (direction ray) = 1"
    and c: "candidate ray sphere = Some t"
  shows "on_sphere ray sphere t" and "on_sphere ray sphere t' \<Longrightarrow> t \<le> t'"
proof -
  let ?oc = "vsub (center sphere) (origin ray)"
  let ?p = "dot (direction ray) ?oc"
  let ?q = "radius sphere * radius sphere - (dot ?oc ?oc - ?p * ?p)"
  from c have q: "0 \<le> ?q" and t: "t = ?p - sqrt ?q"
    by (auto simp: candidate_def Let_def split: if_splits)
  from q have sq: "(sqrt ?q)\<^sup>2 = ?q" by simp
  have "(t - ?p)\<^sup>2 = (sqrt ?q)\<^sup>2" unfolding t by (simp add: power2_eq_square)
  with sq show "on_sphere ray sphere t"
    by (simp only: on_sphere_iff [OF unit])
  assume "on_sphere ray sphere t'"
  then have "(t' - ?p)\<^sup>2 = (sqrt ?q)\<^sup>2"
    by (simp only: on_sphere_iff [OF unit] sq)
  then have "t' - ?p = sqrt ?q \<or> t' - ?p = - sqrt ?q"
    by (simp only: power2_eq_iff)
  moreover from q have "0 \<le> sqrt ?q" by simp
  ultimately show "t \<le> t'" unfolding t by linarith
qed

section \<open>What trace returns\<close>

lemma trace_Some_Some:
  assumes "trace ray spheres = Some (Some n)"
  shows "unat (sphere_index n) < length spheres"
    and "candidate ray (spheres ! unat (sphere_index n)) = Some (distance n)"
    and "distance n < FLT_MAX"
    and "\<And>j d. j < length spheres \<Longrightarrow> candidate ray (spheres ! j) = Some d \<Longrightarrow>
           distance n \<le> d \<and> (d = distance n \<longrightarrow> unat (sphere_index n) \<le> j)"
  using trace_cases [OF trace_Some_bound [OF assms], of ray] assms by auto

lemma trace_total:
  assumes "length spheres < 2 ^ 32"
  shows "\<exists>r. trace ray spheres = Some r"
  using trace_cases [OF assms, of ray] by blast

lemma trace_a: "trace ray_z [sphere_a] = Some (Some \<lparr>sphere_index = 0, distance = 4\<rparr>)"
  using FLT_MAX_gt by (simp add: trace_one candidate_a)

text \<open>
  Claim C9.  An intersection that \<^verbatim>\<open>trace\<close> returns holds an index below the size of
  the vector, so the read \<^verbatim>\<open>spheres[intersection->sphere_index]\<close> of the shader is in
  bounds.
\<close>

theorem trace_index_in_bounds:
  "trace ray spheres = Some (Some n) \<Longrightarrow> unat (sphere_index n) < length spheres"
  by (rule trace_Some_Some(1))

theorem trace_index_in_bounds_witness:
  "trace ray_z [sphere_a] = Some (Some \<lparr>sphere_index = 0, distance = 4\<rparr>) \<and>
   unat (sphere_index \<lparr>sphere_index = 0, distance = 4\<rparr>) < length [sphere_a]"
  using trace_index_in_bounds [OF trace_a] trace_a by simp

section \<open>The sign of the distance\<close>

text \<open>
  With exact reals the candidate distance is positive when the origin of the ray lies
  strictly outside the sphere.
\<close>

lemma candidate_positive:
  assumes "outside (origin ray) sphere" and "candidate ray sphere = Some t"
  shows "0 < t"
proof -
  let ?oc = "vsub (center sphere) (origin ray)"
  let ?p = "dot (direction ray) ?oc"
  let ?r2 = "radius sphere * radius sphere"
  from assms(2) have p: "0 \<le> ?p" and le: "dot ?oc ?oc - ?p * ?p \<le> ?r2"
    and t: "t = ?p - sqrt (?r2 - (dot ?oc ?oc - ?p * ?p))"
    by (auto simp: candidate_def Let_def split: if_splits)
  from assms(1) have out: "?r2 < dot ?oc ?oc" by (simp add: outside_def Let_def)
  have "?r2 - (dot ?oc ?oc - ?p * ?p) < ?p * ?p" using out by simp
  then have "sqrt (?r2 - (dot ?oc ?oc - ?p * ?p)) < sqrt (?p * ?p)"
    by (simp only: real_sqrt_less_iff)
  also have "sqrt (?p * ?p) = ?p" using p by (rule sqrt_sq)
  finally show ?thesis unfolding t by simp
qed

text \<open>
  A ray that starts on the surface of a sphere, as the shadow rays of \<^verbatim>\<open>ray_cast\<close> do,
  with the centre ahead of it: \<^verbatim>\<open>trace\<close> returns the distance 0.  A ray that starts
  inside a sphere, with the centre ahead of it: the distance is negative.
\<close>

theorem trace_distance_not_positive_counterexample:
  "trace ray_surface [sphere_a] = Some (Some \<lparr>sphere_index = 0, distance = 0\<rparr>) \<and>
   trace ray_z [sphere_around] = Some (Some \<lparr>sphere_index = 0, distance = - 2\<rparr>)"
proof -
  have "candidate ray_surface sphere_a = Some 0"
    by (simp add: candidate_def ray_surface_def sphere_a_def vsub_def dot_def)
  then show ?thesis
    using FLT_MAX_gt by (simp add: trace_one candidate_around)
qed

section \<open>The background\<close>

lemma ray_cast_miss: "trace ray spheres = Some None \<Longrightarrow> ray_cast ray spheres = Some (Vec3 0 0 0)"
  by (simp add: ray_cast_def)

section \<open>A ray aimed at a centre\<close>

lemma dot_vscale: "dot (vscale a k) b = k * dot a b"
  by (simp add: dot_def vscale_def algebra_simps)

text \<open>
  With exact reals, a ray aimed at the centre of a sphere from outside has the candidate
  distance: distance to the centre minus radius.
\<close>

lemma candidate_towards_center:
  assumes r: "0 \<le> radius sphere"
    and out: "radius sphere < sqrt (dot (vsub (center sphere) (origin ray)) (vsub (center sphere) (origin ray)))"
    and dir: "direction ray = normalize_vec (vsub (center sphere) (origin ray))"
  shows "candidate ray sphere =
     Some (sqrt (dot (vsub (center sphere) (origin ray)) (vsub (center sphere) (origin ray))) - radius sphere)"
proof -
  let ?oc = "vsub (center sphere) (origin ray)"
  let ?D = "sqrt (dot ?oc ?oc)"
  from r out have D: "0 < ?D" by linarith
  then have DD: "?D * ?D = dot ?oc ?oc"
    by (metis less_eq_real_def real_sqrt_gt_0_iff real_sqrt_mult_self abs_of_nonneg real_sqrt_abs2 real_sqrt_mult)
  have "dot (direction ray) ?oc = dot ?oc ?oc * (1 / ?D)"
    unfolding dir normalize_vec_def by (simp only: dot_vscale mult.commute)
  also have "\<dots> = ?D" using D DD by (simp add: field_simps)
  finally have p: "dot (direction ray) ?oc = ?D" .
  have "sqrt (radius sphere * radius sphere) = radius sphere" using r by (rule sqrt_sq)
  with D show ?thesis
    by (simp add: candidate_def Let_def p DD)
qed

lemma sqrt_10000: "sqrt 10000 = 100"
  using sqrt_sq [of 100] by simp

lemma aim_far: "normalize_vec (vsub (center sphere_far) (origin ray_z)) = direction ray_z"
  by (simp add: normalize_vec_def vsub_def dot_def vscale_def sphere_far_def ray_z_def sqrt_10000)

text \<open>
  The ray below starts outside both spheres and is aimed at the centre of the first one,
  99 away from its surface; \<^verbatim>\<open>trace\<close> returns the second sphere, which the ray meets
  at the distance 16.
\<close>

theorem trace_towards_center_counterexample:
  "outside (origin ray_z) sphere_far \<and> outside (origin ray_z) sphere_big \<and>
   direction ray_z = normalize_vec (vsub (center sphere_far) (origin ray_z)) \<and>
   dot (direction ray_z) (direction ray_z) = 1 \<and>
   sqrt (dot (vsub (center sphere_far) (origin ray_z)) (vsub (center sphere_far) (origin ray_z)))
     - radius sphere_far = 99 \<and>
   trace ray_z [sphere_far, sphere_big] = Some (Some \<lparr>sphere_index = 1, distance = 16\<rparr>)"
proof -
  have "trace ray_z [sphere_far, sphere_big] = Some (Some \<lparr>sphere_index = 1, distance = 16\<rparr>)"
    using FLT_MAX_gt
    by (simp add: trace_def trace_loop.simps trace_body_candidate candidate_far candidate_big)
  moreover have "outside (origin ray_z) sphere_far" "outside (origin ray_z) sphere_big"
    by (simp_all add: outside_def ray_z_def sphere_far_def sphere_big_def vsub_def dot_def)
  moreover have "sqrt (dot (vsub (center sphere_far) (origin ray_z))
      (vsub (center sphere_far) (origin ray_z))) - radius sphere_far = 99"
    by (simp add: ray_z_def sphere_far_def vsub_def dot_def sqrt_10000)
  moreover have "dot (direction ray_z) (direction ray_z) = 1"
    by (simp add: ray_z_def dot_def)
  ultimately show ?thesis using aim_far by simp
qed

section \<open>The colour of a hit\<close>

lemma pattern_factor_nonneg: "0 \<le> pattern_factor n"
  by (simp add: pattern_factor_def)

lemma ray_cast_hit:
  assumes "trace ray spheres = Some (Some hit)"
  shows "ray_cast ray spheres =
     (let sphere = spheres ! unat (sphere_index hit);
          point = vadd (origin ray) (vscale (direction ray) (distance hit));
          normal = normalize_vec (vsub point (center sphere));
          factor = pattern_factor normal
      in case trace \<lparr>origin = point, direction = vneg light_dir\<rparr> spheres of
           None \<Rightarrow> None
         | Some (Some shadow_intersection) \<Rightarrow> Some (vscale ambient factor)
         | Some None \<Rightarrow>
             Some (vadds (vscale (vadds ambient (max 0 (dot normal (vneg light_dir)) * 0.8)) factor)
                     (max 0 (dot (reflect (direction ray) normal) (vneg light_dir)) ^ 32 * 0.5)))"
  using trace_Some_Some(1) [OF assms]
  by (simp add: ray_cast_def assms Let_def split: option.splits)

text \<open>
  Claim C3.  At a hit, with the point, the normal and the shadow ray that \<^verbatim>\<open>ray_cast\<close>
  computes: when the shadow ray hits a sphere the colour is the ambient 0.1 times the
  pattern factor in every channel; when it hits none the colour is
  \<open>(0.1 + diffuse) * factor + specular\<close> in every channel, the specular term outside the
  product with the pattern factor.
\<close>

theorem ray_cast_shading:
  assumes "trace ray spheres = Some (Some hit)"
  shows
    "let sphere = spheres ! unat (sphere_index hit);
         point = vadd (origin ray) (vscale (direction ray) (distance hit));
         normal = normalize_vec (vsub point (center sphere));
         factor = (if pattern normal then 0.5 else 1);
         shadow = trace \<lparr>origin = point, direction = vneg light_dir\<rparr> spheres;
         diffuse = max 0 (dot normal (vneg light_dir)) * 0.8;
         specular = max 0 (dot (reflect (direction ray) normal) (vneg light_dir)) ^ 32 * 0.5
     in ((\<exists>s. shadow = Some (Some s)) \<longrightarrow>
           ray_cast ray spheres = Some (Vec3 (0.1 * factor) (0.1 * factor) (0.1 * factor))) \<and>
        (shadow = Some None \<longrightarrow>
           ray_cast ray spheres =
             Some (Vec3 ((0.1 + diffuse) * factor + specular)
                        ((0.1 + diffuse) * factor + specular)
                        ((0.1 + diffuse) * factor + specular)))"
  unfolding ray_cast_hit [OF assms] Let_def
  by (auto simp: ambient_def vscale_def vadds_def pattern_factor_def)

lemma light_dir_eq: "light_dir = Vec3 (1 / sqrt 3) (- (1 / sqrt 3)) (- (1 / sqrt 3))"
  by (simp add: light_dir_def normalize_vec_def dot_def vscale_def)

lemma shadow_a:
  "trace \<lparr>origin = Vec3 0 0 (- 4), direction = vneg light_dir\<rparr> [sphere_a] = Some None"
proof -
  have "candidate \<lparr>origin = Vec3 0 0 (- 4), direction = vneg light_dir\<rparr> sphere_a = None"
    by (simp add: candidate_def light_dir_eq vneg_def sphere_a_def vsub_def dot_def)
  then show ?thesis by (simp add: trace_one)
qed

lemma ray_cast_a: "ray_cast ray_z [sphere_a] = Some (Vec3 lit_a lit_a lit_a)"
proof -
  have p: "vadd (origin ray_z) (vscale (direction ray_z) 4) = Vec3 0 0 (- 4)"
    by (simp add: ray_z_def vadd_def vscale_def)
  have n: "normalize_vec (vsub (Vec3 0 0 (- 4)) (center sphere_a)) = Vec3 0 0 1"
    by (simp add: sphere_a_def vsub_def normalize_vec_def dot_def vscale_def)
  have d: "max 0 (dot (Vec3 0 0 1) (vneg light_dir)) = 1 / sqrt 3"
    by (simp add: light_dir_eq vneg_def dot_def)
  have r: "reflect (direction ray_z) (Vec3 0 0 1) = Vec3 0 0 1"
    by (simp add: reflect_def ray_z_def vsub_def vscale_def dot_def)
  have "ray_cast ray_z [sphere_a] =
      Some (vadds (vscale (vadds ambient (max 0 (dot (Vec3 0 0 1) (vneg light_dir)) * 0.8))
                     (pattern_factor (Vec3 0 0 1)))
              (max 0 (dot (reflect (direction ray_z) (Vec3 0 0 1)) (vneg light_dir)) ^ 32 * 0.5))"
    unfolding ray_cast_hit [OF trace_a] by (simp add: Let_def p n shadow_a)
  then show ?thesis
    by (simp add: d r lit_a_def ambient_def vscale_def vadds_def pattern_factor_def)
qed

theorem ray_cast_shading_witness:
  "trace ray_z [sphere_a] = Some (Some \<lparr>sphere_index = 0, distance = 4\<rparr>) \<and>
   trace \<lparr>origin = Vec3 0 0 (- 4), direction = vneg light_dir\<rparr> [sphere_a] = Some None \<and>
   ray_cast ray_z [sphere_a] = Some (Vec3 lit_a lit_a lit_a)"
proof -
  have p: "vadd (origin ray_z) (vscale (direction ray_z) 4) = Vec3 0 0 (- 4)"
    by (simp add: ray_z_def vadd_def vscale_def)
  have n: "normalize_vec (vsub (Vec3 0 0 (- 4)) (center sphere_a)) = Vec3 0 0 1"
    by (simp add: sphere_a_def vsub_def normalize_vec_def dot_def vscale_def)
  have d: "max 0 (dot (Vec3 0 0 1) (vneg light_dir)) = 1 / sqrt 3"
    by (simp add: light_dir_eq vneg_def dot_def)
  have r: "reflect (direction ray_z) (Vec3 0 0 1) = Vec3 0 0 1"
    by (simp add: reflect_def ray_z_def vsub_def vscale_def dot_def)
  from ray_cast_shading [OF trace_a]
  have "ray_cast ray_z [sphere_a] = Some (Vec3 lit_a lit_a lit_a)"
    by (simp add: Let_def p n d r shadow_a lit_a_def)
  with trace_a shadow_a show ?thesis by simp
qed

section \<open>The sign of the colour\<close>

text \<open>
  Claim C10.  Every channel of a colour that \<^verbatim>\<open>ray_cast\<close> returns is at least 0.
\<close>

theorem ray_cast_nonnegative:
  assumes "ray_cast ray spheres = Some c"
  shows "0 \<le> vx c \<and> 0 \<le> vy c \<and> 0 \<le> vz c"
proof (cases "trace ray spheres")
  case None
  with assms show ?thesis by (simp add: ray_cast_def)
next
  case (Some r)
  show ?thesis
  proof (cases r)
    case None
    with Some assms show ?thesis by (auto simp: ray_cast_def)
  next
    case (Some hit)
    with \<open>trace ray spheres = Some r\<close> have t: "trace ray spheres = Some (Some hit)" by simp
    have amb: "0 \<le> (0.1::real) * pattern_factor n" for n
      using pattern_factor_nonneg [of n] by simp
    have lit: "0 \<le> (0.1 + max 0 a * 0.8) * pattern_factor n + max 0 b ^ 32 * 0.5"
      for a b :: real and n
    proof -
      have "0 \<le> (0.1 + max 0 a * 0.8)" by simp
      then have "0 \<le> (0.1 + max 0 a * 0.8) * pattern_factor n"
        using pattern_factor_nonneg [of n] by (rule mult_nonneg_nonneg)
      moreover have "0 \<le> max 0 b ^ 32 * 0.5" by simp
      ultimately show ?thesis by linarith
    qed
    from assms show ?thesis
      unfolding ray_cast_hit [OF t] Let_def
      using amb lit
      by (auto simp: ambient_def vscale_def vadds_def split: option.splits)
  qed
qed

theorem ray_cast_nonnegative_witness:
  "ray_cast ray_z [sphere_a] = Some (Vec3 lit_a lit_a lit_a) \<and> 0 \<le> lit_a"
  using ray_cast_nonnegative [OF ray_cast_a] ray_cast_a by simp

section \<open>The frame\<close>

lemma ray_cast_total:
  assumes "length spheres < 2 ^ 32"
  shows "\<exists>c. ray_cast ray spheres = Some c"
proof -
  from trace_total [OF assms] obtain r where r: "trace ray spheres = Some r" by blast
  show ?thesis
  proof (cases r)
    case None
    with r show ?thesis by (simp add: ray_cast_miss)
  next
    case (Some hit)
    with r have t: "trace ray spheres = Some (Some hit)" by simp
    obtain q where "trace \<lparr>origin = vadd (origin ray) (vscale (direction ray) (distance hit)),
        direction = vneg light_dir\<rparr> spheres = Some q"
      using trace_total [OF assms] by blast
    then show ?thesis
      unfolding ray_cast_hit [OF t] Let_def by (cases q) simp_all
  qed
qed

declare render_x.simps [simp del] render_y.simps [simp del]

lemma render_x_row:
  assumes "length spheres < 2 ^ 32"
  shows "x \<le> width \<Longrightarrow> y * width + width \<le> length img \<Longrightarrow>
     \<exists>img'. render_x width height spheres y x img = Some img' \<and>
       length img' = length img \<and>
       (\<forall>i<length img. img' ! i =
          (if y * width + x \<le> i \<and> i < y * width + width
           then the (ray_cast (pixel_ray width height (i - y * width) y) spheres)
           else img ! i))"
proof (induction "width - x" arbitrary: x img)
  case 0
  then have "x = width" by simp
  then show ?case by (subst render_x.simps) auto
next
  case (Suc m)
  then have lt: "x < width" by simp
  obtain c where c: "ray_cast (pixel_ray width height x y) spheres = Some c"
    using ray_cast_total [OF assms] by blast
  let ?img = "img[y * width + x := c]"
  have "m = width - Suc x" using Suc.hyps(2) by simp
  from Suc.hyps(1) [OF this, of ?img] lt Suc.prems(2)
  obtain img' where r: "render_x width height spheres y (Suc x) ?img = Some img'"
    and l: "length img' = length img"
    and v: "\<forall>i<length img. img' ! i =
          (if y * width + Suc x \<le> i \<and> i < y * width + width
           then the (ray_cast (pixel_ray width height (i - y * width) y) spheres)
           else ?img ! i)"
    by auto
  have "render_x width height spheres y x img = Some img'"
    using lt c r by (subst render_x.simps) simp
  moreover have "img' ! i =
          (if y * width + x \<le> i \<and> i < y * width + width
           then the (ray_cast (pixel_ray width height (i - y * width) y) spheres)
           else img ! i)" if "i < length img" for i
  proof (cases "i = y * width + x")
    case True
    with v that lt c show ?thesis by simp
  next
    case False
    with v that show ?thesis by auto
  qed
  ultimately show ?case using l by blast
qed

lemma render_y_rows:
  assumes "length spheres < 2 ^ 32"
  shows "y \<le> height \<Longrightarrow> length img = width * height \<Longrightarrow>
     \<exists>img'. render_y width height spheres y img = Some img' \<and>
       length img' = length img \<and>
       (\<forall>i<length img. img' ! i =
          (if y * width \<le> i
           then the (ray_cast (pixel_ray width height (i mod width) (i div width)) spheres)
           else img ! i))"
proof (induction "height - y" arbitrary: y img)
  case 0
  then have "y = height" by simp
  with 0 show ?case by (subst render_y.simps) (auto simp: mult.commute)
next
  case (Suc m)
  then have lt: "y < height" by simp
  then have "Suc y * width \<le> height * width" by (simp only: Suc_leI mult_le_mono1)
  then have fit: "y * width + width \<le> length img"
    using Suc.prems(2) by (simp add: mult.commute)
  from render_x_row [OF assms, of 0 width y img height, OF _ fit]
  obtain row where row: "render_x width height spheres y 0 img = Some row"
    and lrow: "length row = length img"
    and vrow: "\<forall>i<length img. row ! i =
          (if y * width + 0 \<le> i \<and> i < y * width + width
           then the (ray_cast (pixel_ray width height (i - y * width) y) spheres)
           else img ! i)"
    by auto
  have "m = height - Suc y" using Suc.hyps(2) by simp
  from Suc.hyps(1) [OF this, of row] lt lrow Suc.prems(2)
  obtain img' where r: "render_y width height spheres (Suc y) row = Some img'"
    and l: "length img' = length img"
    and v: "\<forall>i<length img. img' ! i =
          (if Suc y * width \<le> i
           then the (ray_cast (pixel_ray width height (i mod width) (i div width)) spheres)
           else row ! i)"
    by auto
  have "render_y width height spheres y img = Some img'"
    using lt row r by (subst render_y.simps) simp
  moreover have "img' ! i =
          (if y * width \<le> i
           then the (ray_cast (pixel_ray width height (i mod width) (i div width)) spheres)
           else img ! i)" if i: "i < length img" for i
  proof (cases "Suc y * width \<le> i")
    case True
    with v i show ?thesis by simp
  next
    case False
    show ?thesis
    proof (cases "y * width \<le> i")
      case True
      with False have range: "y * width + 0 \<le> i \<and> i < y * width + width" by simp
      then have "0 < width" by simp
      have "width * y \<le> i" "i < width * Suc y"
        using range by (simp_all add: mult.commute)
      then have dv: "i div width = y" by (rule div_nat_eqI)
      have md: "i mod width = i - y * width"
        using minus_div_mult_eq_mod [of i width] unfolding dv by simp
      from v i False have "img' ! i = row ! i" by simp
      also from vrow i range have "\<dots> = the (ray_cast (pixel_ray width height (i - y * width) y) spheres)"
        by simp
      finally show ?thesis using True dv md by simp
    next
      case F2: False
      with v vrow i False show ?thesis by simp
    qed
  qed
  ultimately show ?case using l by blast
qed

text \<open>
  Claim C6.  For a scene of fewer than \<open>2 ^ 32\<close> spheres the frame is computed; it has
  \<open>width * height\<close> entries, and the entry at \<open>y * width + x\<close> is what \<^verbatim>\<open>ray_cast\<close>
  returns for the camera ray of the pixel \<open>(x, y)\<close>, a function of that ray and of the
  scene alone.
\<close>

theorem render_frame_pixels:
  assumes "length spheres < 2 ^ 32"
  shows "\<exists>img. render_frame width height spheres = Some img \<and>
     length img = width * height \<and>
     (\<forall>x<width. \<forall>y<height.
        ray_cast
          \<lparr>origin = Vec3 0 0 0,
           direction = normalize_vec (Vec3
             ((2 * (real x + 0.5) / real width - 1) * (real width / real height))
             (1 - 2 * (real y + 0.5) / real height)
             (- 1 / tan (fov / 2)))\<rparr>
          spheres = Some (img ! (y * width + x)))"
proof -
  let ?img0 = "replicate (width * height) (Vec3 0 0 0)"
  from render_y_rows [OF assms, of 0 height ?img0 width]
  obtain img where r: "render_y width height spheres 0 ?img0 = Some img"
    and l: "length img = width * height"
    and v: "\<forall>i<width * height. img ! i =
          the (ray_cast (pixel_ray width height (i mod width) (i div width)) spheres)"
    by auto
  have "ray_cast (pixel_ray width height x y) spheres = Some (img ! (y * width + x))"
    if x: "x < width" and y: "y < height" for x y
  proof -
    have "y * width + x < Suc y * width" using x by simp
    also have "\<dots> \<le> height * width" using y by (simp only: Suc_leI mult_le_mono1)
    finally have i: "y * width + x < width * height" by (simp add: mult.commute)
    from x have "(y * width + x) mod width = x" "(y * width + x) div width = y" by simp_all
    with v i have "img ! (y * width + x) = the (ray_cast (pixel_ray width height x y) spheres)"
      by simp
    with ray_cast_total [OF assms, of "pixel_ray width height x y"] show ?thesis by auto
  qed
  then show ?thesis using r l
    by (simp add: render_frame_def pixel_ray_def Let_def)
qed

lemma center_direction:
  "normalize_vec (Vec3 ((2 * (real 0 + 0.5) / real 1 - 1) * (real 1 / real 1))
     (1 - 2 * (real 0 + 0.5) / real 1) (- 1 / tan (fov / 2))) = Vec3 0 0 (- 1)"
proof -
  have "fov / 2 < pi / 2" using pi_ge_two by (simp add: fov_def PI_F_def)
  moreover have "0 < fov / 2" by (simp add: fov_def PI_F_def)
  ultimately have t: "0 < tan (fov / 2)" by (simp only: tan_gt_zero)
  then have "sqrt (1 / tan (fov / 2) * (1 / tan (fov / 2))) = 1 / tan (fov / 2)"
    by (intro sqrt_sq) simp
  with t show ?thesis
    by (simp add: normalize_vec_def dot_def vscale_def)
qed

theorem render_frame_pixels_witness:
  "length [sphere_a] < 2 ^ 32 \<and>
   render_frame 1 1 [sphere_a] = Some [Vec3 lit_a lit_a lit_a]"
proof -
  have len: "length [sphere_a] < 2 ^ 32" by simp
  from render_frame_pixels [OF len, of 1 1]
  obtain img where r: "render_frame 1 1 [sphere_a] = Some img"
    and l: "length img = 1"
    and p: "ray_cast \<lparr>origin = Vec3 0 0 0,
           direction = normalize_vec (Vec3
             ((2 * (real 0 + 0.5) / real 1 - 1) * (real 1 / real 1))
             (1 - 2 * (real 0 + 0.5) / real 1)
             (- 1 / tan (fov / 2)))\<rparr> [sphere_a] = Some (img ! (0 * 1 + 0))"
    by auto
  from p have "img ! 0 = Vec3 lit_a lit_a lit_a"
    unfolding center_direction using ray_cast_a by (simp add: ray_z_def)
  moreover from l have "img = [img ! 0]"
    by (cases img) simp_all
  ultimately show ?thesis using r len by simp
qed

section \<open>The checker pattern\<close>

lemma arctan_bounds:
  fixes x :: real
  assumes "0 < x" and "x \<le> 1"
  shows "x - x ^ 3 / 3 + x ^ 5 / 5 - x ^ 7 / 7 \<le> arctan x" and "arctan x \<le> x"
proof -
  let ?a = "\<lambda>n. 1 / real (n * 2 + 1) * x ^ (n * 2 + 1)"
  from assms have ax: "\<bar>x\<bar> \<le> 1" by simp
  have pos: "0 < ?a 0" using assms by simp
  have s: "arctan x = (\<Sum>k. (- 1) ^ k * ?a k)"
    using arctan_series [OF ax] .
  from summable_Leibniz(2) [OF zeroseq_arctan_series [OF ax] monoseq_arctan_series [OF ax]] pos
  have b: "\<And>n. (\<Sum>i. (- 1) ^ i * ?a i) \<in> {\<Sum>i<2 * n. (- 1) ^ i * ?a i .. \<Sum>i<2 * n + 1. (- 1) ^ i * ?a i}"
    by blast
  from b [of 2] have "(\<Sum>i<4. (- 1) ^ i * ?a i) \<le> arctan x"
    unfolding s by simp
  then show "x - x ^ 3 / 3 + x ^ 5 / 5 - x ^ 7 / 7 \<le> arctan x"
    by (simp add: numeral_eq_Suc)
  from b [of 0] have "arctan x \<le> (\<Sum>i<1. (- 1) ^ i * ?a i)"
    unfolding s by simp
  then show "arctan x \<le> x" by simp
qed

lemma pi_bounds: "314159 / 100000 < pi" "pi < 16 / 5"
proof -
  have l5: "(1/5) - (1/5) ^ 3 / 3 + (1/5) ^ 5 / 5 - (1/5) ^ 7 / 7 \<le> arctan (1/5 :: real)"
    by (rule arctan_bounds) simp_all
  have u5: "arctan (1/5 :: real) \<le> 1/5"
    by (rule arctan_bounds) simp_all
  have u239: "arctan (1/239 :: real) \<le> 1/239"
    by (rule arctan_bounds) simp_all
  have l239: "0 < arctan (1/239 :: real)"
    by simp
  have m: "pi = 16 * arctan (1/5) - 4 * arctan (1/239)"
    using machin by simp
  from l5 have "323852 / 1640625 \<le> arctan (1/5 :: real)" by (simp add: power_def)
  with u239 show "314159 / 100000 < pi" unfolding m by linarith
  from u5 l239 show "pi < 16 / 5" unfolding m by linarith
qed


lemma PI_F_eq: "PI_F = 6283 / 2000"
  by (simp add: PI_F_def)

lemma to_int_eq:
  assumes "real_of_int k \<le> r" and "r < real_of_int k + 1" and "0 \<le> k"
  shows "to_int r = k"
proof -
  from assms(1,3) have "0 \<le> r" by linarith
  moreover from assms(1,2) have "\<lfloor>r\<rfloor> = k" by linarith
  ultimately show ?thesis by (simp add: to_int_def)
qed

lemma smod_2_even: "k smod 2 = 0 \<longleftrightarrow> even (k :: int)"
  by (auto simp: signed_modulo_int_def sgn_if abs_if)

lemma ratio_pi: "1 < pi / PI_F" "pi / PI_F < 6 / 5"
  using pi_bounds by (simp_all add: PI_F_eq field_simps)


lemma seam_eps: "0 < arctan (200000 / 9999999999 :: real)"
    "arctan (200000 / 9999999999 :: real) \<le> 200000 / 9999999999"
proof -
  show "0 < arctan (200000 / 9999999999 :: real)" by simp
  show "arctan (200000 / 9999999999 :: real) \<le> 200000 / 9999999999"
    by (rule arctan_bounds) simp_all
qed


lemma equator_code_v:
  assumes "vy n = 0"
  shows "to_int (texture_y n * 10) = 5"
proof -
  have ty: "texture_y n * 10 = 5 * (pi / PI_F)"
    by (simp add: texture_y_def assms)
  have "5 \<le> 5 * (pi / PI_F)" "5 * (pi / PI_F) < 6"
    using ratio_pi by linarith+
  then show ?thesis unfolding ty by (intro to_int_eq) simp_all
qed



text \<open>
  On the other side of the seam the first texture coordinate of the program is below 0:
  the conversion to \<^verbatim>\<open>int\<close> gives the band 0 where the floor is \<open>- 1\<close>, and the pattern
  is off, the sum of the bands being 5.
\<close>

lemma below_seam_band:
  "to_int (texture_x normal_below_seam * 10) = 0"
  "\<lfloor>texture_x normal_below_seam * 10\<rfloor> = - 1"
  "\<not> pattern normal_below_seam"
proof -
  let ?e = "arctan (200000 / 9999999999 :: real)"
  let ?q = "(pi - ?e) / PI_F"
  have "atan2 (vz normal_below_seam) (vx normal_below_seam) = ?e - pi"
    by (simp add: atan2_def normal_below_seam_def)
  then have "texture_x normal_below_seam * 10 = 5 + 5 * ((?e - pi) / PI_F)"
    by (simp add: texture_x_def)
  also have "(?e - pi) / PI_F = - ?q"
    by (simp add: PI_F_eq field_simps)
  finally have tx: "texture_x normal_below_seam * 10 = 5 - 5 * ?q" by simp
  have "PI_F < pi - ?e" unfolding PI_F_eq using pi_bounds(1) seam_eps(2) by linarith
  then have "1 < ?q" by (simp add: PI_F_eq)
  then have hi: "5 - 5 * ?q < 0" by linarith
  have "pi - ?e < 6 / 5 * PI_F" unfolding PI_F_eq using pi_bounds(2) seam_eps(1) by linarith
  then have "?q < 6 / 5" by (simp add: PI_F_eq)
  then have lo: "- 1 < 5 - 5 * ?q" by linarith
  from lo hi show f: "\<lfloor>texture_x normal_below_seam * 10\<rfloor> = - 1"
    unfolding tx by linarith
  from lo hi have "\<lceil>5 - 5 * ?q\<rceil> = 0" by linarith
  with hi show u: "to_int (texture_x normal_below_seam * 10) = 0"
    unfolding tx by (simp add: to_int_def)
  have "to_int (texture_y normal_below_seam * 10) = 5"
    by (rule equator_code_v) (simp add: normal_below_seam_def)
  with u show "\<not> pattern normal_below_seam"
    by (simp add: pattern_def smod_2_even)
qed




section \<open>The nearest hit of the floating-point trace\<close>

lemma flt_irrefl: "\<not> flt a a"
  by (cases a) simp_all

lemma flt_trans: "flt a b \<Longrightarrow> flt b c \<Longrightarrow> flt a c"
  by (cases a; cases b; cases c) simp_all

lemma flt_between: "flt a c \<Longrightarrow> flt a b \<or> flt b c \<or> b = NaN"
  by (cases a; cases b; cases c) auto

lemma flt_NaN: "\<not> flt NaN a" "\<not> flt a NaN"
  by (cases a, simp_all)+

lemma trace_body_candidate_f:
  "trace_body_f ar ray s i n =
     (case candidate_f ar ray s of
        None \<Rightarrow> n
      | Some d \<Rightarrow> if flt d (distance_f n) then \<lparr>sphere_index_f = i, distance_f = d\<rparr> else n)"
  by (simp add: trace_body_f_def candidate_f_def Let_def)

lemma nearest_upto_f_init:
  "nearest_upto_f ar ray spheres 0 \<lparr>sphere_index_f = - 1, distance_f = Fin FLT_MAX\<rparr>"
  by (simp add: nearest_upto_f_def)

lemma nearest_upto_f_step:
  assumes k: "k < 2 ^ 32" and inv: "nearest_upto_f ar ray spheres k n"
  shows "nearest_upto_f ar ray spheres (Suc k) (trace_body_f ar ray (spheres ! k) (of_nat k) n)"
proof (cases "candidate_f ar ray (spheres ! k)")
  case None
  with inv show ?thesis
    by (auto simp: trace_body_candidate_f nearest_upto_f_def less_Suc_eq)
next
  case (Some d)
  show ?thesis
  proof (cases "flt d (distance_f n)")
    case False
    with Some inv show ?thesis
      by (auto simp: trace_body_candidate_f nearest_upto_f_def less_Suc_eq)
  next
    case True
    have below: "flt d (Fin FLT_MAX)"
      using inv True by (auto simp: nearest_upto_f_def intro: flt_trans)
    have least: "\<not> flt e d" if "j < k" "candidate_f ar ray (spheres ! j) = Some e" for j e
    proof
      assume "flt e d"
      then have "flt e (distance_f n)" using True by (rule flt_trans)
      moreover from \<open>flt e d\<close> below have "flt e (Fin FLT_MAX)" by (rule flt_trans)
      ultimately show False using inv that by (auto simp: nearest_upto_f_def)
    qed
    have first: "flt d e \<or> e = NaN" if "j < k" "candidate_f ar ray (spheres ! j) = Some e" for j e
    proof -
      from flt_between [OF True, of e] have "flt d e \<or> flt e (distance_f n) \<or> e = NaN" .
      moreover have "\<not> flt e (distance_f n)"
        using inv that by (auto simp: nearest_upto_f_def)
      ultimately show ?thesis by blast
    qed
    have body: "trace_body_f ar ray (spheres ! k) (of_nat k) n =
        \<lparr>sphere_index_f = of_nat k, distance_f = d\<rparr>"
      using Some True by (simp add: trace_body_candidate_f)
    show ?thesis
      unfolding body nearest_upto_f_def
      using k Some below least first
      by (auto simp: less_Suc_eq unat_of_nat32 flt_irrefl)
  qed
qed

lemma trace_loop_f_nearest:
  assumes "length spheres < 2 ^ 32"
  shows "k \<le> length spheres \<Longrightarrow> nearest_upto_f ar ray spheres k n \<Longrightarrow>
     \<exists>m. trace_loop_f ar ray spheres (of_nat k) n = Some m \<and>
         nearest_upto_f ar ray spheres (length spheres) m"
proof (induction "length spheres - k" arbitrary: k n)
  case 0
  then have "k = length spheres" by simp
  with assms 0 show ?case
    by (subst trace_loop_f.simps) (simp add: unat_of_nat32)
next
  case (Suc m)
  then have lt: "k < length spheres" by simp
  with assms have k32: "k < 2 ^ 32" by simp
  have step: "nearest_upto_f ar ray spheres (Suc k)
      (trace_body_f ar ray (spheres ! k) (of_nat k) n)"
    using nearest_upto_f_step [OF k32 Suc.prems(2)] .
  have "m = length spheres - Suc k" using Suc.hyps(2) by simp
  from Suc.hyps(1) [OF this _ step] lt
  obtain r where r: "trace_loop_f ar ray spheres (of_nat (Suc k))
        (trace_body_f ar ray (spheres ! k) (of_nat k) n) = Some r"
      "nearest_upto_f ar ray spheres (length spheres) r"
    by auto
  have "trace_loop_f ar ray spheres (of_nat k) n = Some r"
    using lt k32 r(1) by (subst trace_loop_f.simps) (simp add: unat_of_nat32 add.commute)
  with r(2) show ?case by blast
qed

lemma trace_loop_f_returns_bound:
  assumes "trace_loop_f ar ray spheres i n = Some r"
  shows "length spheres < 2 ^ 32"
proof (rule trace_loop_f.raw_induct
    [where P = "\<lambda>ar ray spheres i n r. length spheres < 2 ^ 32", OF _ assms])
  fix tl :: "arith \<Rightarrow> Ray_f \<Rightarrow> Sphere_f list \<Rightarrow> 32 word \<Rightarrow> Intersection_f \<Rightarrow> Intersection_f option"
  fix ar ray spheres i n r
  assume IH: "\<And>ar ray spheres i n r. tl ar ray spheres i n = Some r \<Longrightarrow> length spheres < 2 ^ 32"
    and eq: "(if unat i < length spheres
          then tl ar ray spheres (i + 1) (trace_body_f ar ray (spheres ! unat i) i n)
          else Some n) = Some r"
  show "length spheres < 2 ^ 32"
  proof (cases "unat i < length spheres")
    case True
    with eq IH show ?thesis by simp
  next
    case False
    have "unat i < 2 ^ 32" using unsigned_less [of i] by simp
    with False show ?thesis by simp
  qed
qed

lemma trace_f_Some_bound:
  assumes "trace_f ar ray spheres = Some r"
  shows "length spheres < 2 ^ 32"
proof -
  from assms obtain m where
    "trace_loop_f ar ray spheres 0 \<lparr>sphere_index_f = - 1, distance_f = Fin FLT_MAX\<rparr> = Some m"
    by (auto simp: trace_f_def split: option.splits)
  then show ?thesis by (rule trace_loop_f_returns_bound)
qed

lemma trace_f_cases:
  assumes "length spheres < 2 ^ 32"
  shows "(\<exists>n. trace_f ar ray spheres = Some (Some n) \<and>
            unat (sphere_index_f n) < length spheres \<and>
            candidate_f ar ray (spheres ! unat (sphere_index_f n)) = Some (distance_f n) \<and>
            flt (distance_f n) (Fin FLT_MAX) \<and>
            (\<forall>j<length spheres. \<forall>d. candidate_f ar ray (spheres ! j) = Some d \<longrightarrow>
               \<not> flt d (distance_f n) \<and>
               (j < unat (sphere_index_f n) \<longrightarrow> flt (distance_f n) d \<or> d = NaN)))
       \<or> (trace_f ar ray spheres = Some None \<and>
            (\<forall>j<length spheres. \<forall>d. candidate_f ar ray (spheres ! j) = Some d \<longrightarrow>
               \<not> flt d (Fin FLT_MAX)))"
proof -
  from trace_loop_f_nearest [OF assms, of 0 ar ray, OF _ nearest_upto_f_init]
  obtain m where
    m: "trace_loop_f ar ray spheres 0 \<lparr>sphere_index_f = - 1, distance_f = Fin FLT_MAX\<rparr> = Some m"
    and inv: "nearest_upto_f ar ray spheres (length spheres) m"
    by auto
  show ?thesis
  proof (cases "sphere_index_f m = - 1")
    case True
    with inv assms have "\<forall>j<length spheres. \<forall>d. candidate_f ar ray (spheres ! j) = Some d \<longrightarrow>
        \<not> flt d (Fin FLT_MAX)"
      by (auto simp: nearest_upto_f_def unat_minus_one32)
    moreover from True m have "trace_f ar ray spheres = Some None"
      by (simp add: trace_f_def)
    ultimately show ?thesis by blast
  next
    case False
    with m have "trace_f ar ray spheres = Some (Some m)"
      by (simp add: trace_f_def)
    with False inv show ?thesis
      by (auto simp: nearest_upto_f_def)
  qed
qed

section \<open>Computing in binary32\<close>

lemma round_even_int: "round_even (of_int k) = k"
  by (simp add: round_even_def)

lemma rnd32_eval:
  assumes lo: "2 ^ n \<le> \<bar>x\<bar>" and hi: "\<bar>x\<bar> < 2 ^ Suc n"
  shows "rnd32 x = 2 powr (real n - 23) * of_int (round_even (x / 2 powr (real n - 23)))"
proof -
  have "(0::real) < 2 ^ n" by simp
  with lo have pos: "0 < \<bar>x\<bar>" by linarith
  then have nz: "x \<noteq> 0" by simp
  have p1: "(2::real) powr (of_int (int n)) = 2 ^ n"
    by (simp add: powr_realpow)
  have "(2::real) powr (of_int (int n + 1)) = 2 powr (real (Suc n))"
    by (simp add: add.commute)
  then have p2: "(2::real) powr (of_int (int n + 1)) = 2 ^ Suc n"
    by (simp only: powr_realpow zero_less_numeral)
  have "2 powr (of_int (int n)) \<le> \<bar>x\<bar> \<and> \<bar>x\<bar> < 2 powr (of_int (int n + 1))"
    unfolding p1 p2 using lo hi by simp
  then have "\<lfloor>log 2 \<bar>x\<bar>\<rfloor> = int n"
    using floor_log_eq_powr_iff [of "\<bar>x\<bar>" 2 "int n"] pos by simp
  then have "max \<lfloor>log 2 \<bar>x\<bar>\<rfloor> (- 126) = int n" by simp
  then show ?thesis using nz by (simp add: rnd32_def Let_def)
qed

lemma rnd32_small:
  assumes int: "x \<in> \<int>" and small: "\<bar>x\<bar> < 2 ^ 24"
  shows "rnd32 x = x"
proof (cases "x = 0")
  case True
  then show ?thesis by (simp add: rnd32_def)
next
  case False
  from int obtain m :: int where m: "x = of_int m" by (auto elim: Ints_cases)
  with False have m1: "1 \<le> \<bar>m\<bar>" by auto
  then have "1 \<le> nat \<bar>m\<bar>" by simp
  from ex_power_ivl1 [of 2, OF _ this] obtain n where
    n: "2 ^ n \<le> nat \<bar>m\<bar>" "nat \<bar>m\<bar> < 2 ^ (n + 1)" by auto
  have ax: "\<bar>x\<bar> = real (nat \<bar>m\<bar>)" using m by simp
  from n(1) have "real (2 ^ n) \<le> real (nat \<bar>m\<bar>)" by (rule of_nat_mono)
  then have lo: "2 ^ n \<le> \<bar>x\<bar>" unfolding ax by simp
  from n(2) have "real (nat \<bar>m\<bar>) < real (2 ^ (n + 1))" by (simp only: of_nat_less_iff)
  then have hi: "\<bar>x\<bar> < 2 ^ Suc n" unfolding ax by simp
  from lo small have "(2::real) ^ n < 2 ^ 24" by linarith
  then have "n < 24" by (rule power_less_imp_less_exp [rotated]) simp
  then have n23: "n \<le> 23" by simp
  have u: "2 powr (real n - 23) = 1 / 2 ^ (23 - n)"
  proof -
    have e: "real n - 23 = - real (23 - n)" using n23 by simp
    show ?thesis unfolding e by (simp only: powr_minus_divide powr_realpow zero_less_numeral)
  qed
  have "x / 2 powr (real n - 23) = of_int m * 2 ^ (23 - n)"
    unfolding u m by simp
  also have "\<dots> = of_int (m * 2 ^ (23 - n))" by simp
  finally have r: "round_even (x / 2 powr (real n - 23)) = m * 2 ^ (23 - n)"
    by (simp only: round_even_int)
  show ?thesis
    unfolding rnd32_eval [OF lo hi] r unfolding u m by simp
qed

lemma fin32_small: "x \<in> \<int> \<Longrightarrow> \<bar>x\<bar> < 2 ^ 24 \<Longrightarrow> fin32 x = Fin x"
  by (auto simp: fin32_def rnd32_small FLT_MAX_def abs_less_iff)

lemma fin32_26: "fin32 67108864 = Fin 67108864"
  using rnd32_eval [of 26 67108864] by (simp add: round_even_def fin32_def FLT_MAX_def)

lemma fin32_tie_26: "fin32 67108868 = Fin 67108864"
  using rnd32_eval [of 26 67108868] by (simp add: round_even_def fin32_def FLT_MAX_def)

lemma fin32_24: "fin32 16777216 = Fin 16777216"
  using rnd32_eval [of 24 16777216] by (simp add: round_even_def fin32_def FLT_MAX_def)

lemma fin32_tie_24: "fin32 16777217 = Fin 16777216"
  using rnd32_eval [of 24 16777217] by (simp add: round_even_def fin32_def FLT_MAX_def)

lemma fin32_70: "fin32 1180591620717411303424 = Fin 1180591620717411303424"
  using rnd32_eval [of 70 1180591620717411303424]
  by (simp add: round_even_def fin32_def FLT_MAX_def)

lemma fin32_m70: "fin32 (- 1180591620717411303424) = Fin (- 1180591620717411303424)"
  using rnd32_eval [of 70 "- 1180591620717411303424"]
  by (simp add: round_even_def fin32_def FLT_MAX_def)

lemma fin32_140: "fin32 1393796574908163946345982392040522594123776 = PInf"
  using rnd32_eval [of 140 1393796574908163946345982392040522594123776]
  by (simp add: round_even_def fin32_def FLT_MAX_def)

lemma FLT_MAX_large: "100000 < FLT_MAX"
  by (simp add: FLT_MAX_def)

lemma trace_f_one:
  "trace_f ar ray [s] =
     Some (case candidate_f ar ray s of
             None \<Rightarrow> None
           | Some d \<Rightarrow>
               if flt d (Fin FLT_MAX) then Some \<lparr>sphere_index_f = 0, distance_f = d\<rparr> else None)"
  by (simp add: trace_f_def trace_loop_f.simps trace_body_candidate_f split: option.splits)

lemma candidate_a_f: "candidate_f b32_ar ray_z_f sphere_a_f = Some (Fin 4)"
  by (simp add: candidate_f_def b32_ar_def ray_z_f_def sphere_a_f_def vsub_f_def dot_f_def
      sub_32_def fin32_small)

lemma candidate_b_f: "candidate_f b32_ar ray_z_f sphere_b_f = Some (Fin 4)"
  by (simp add: candidate_f_def b32_ar_def ray_z_f_def sphere_b_f_def vsub_f_def dot_f_def
      sub_32_def fin32_small)

lemma candidate_aside_f: "candidate_f b32_ar ray_z_f sphere_aside_f = None"
  by (simp add: candidate_f_def b32_ar_def ray_z_f_def sphere_aside_f_def vsub_f_def dot_f_def
      sub_32_def fin32_small)

lemma candidate_huge_f: "candidate_f b32_ar ray_z_f sphere_huge_f = Some NaN"
  by (simp add: candidate_f_def b32_ar_def ray_z_f_def sphere_huge_f_def vsub_f_def dot_f_def
      sub_32_def fin32_small fin32_70 fin32_m70 fin32_140 Let_def)

lemma candidate_skew_f: "candidate_f b32_ar ray_z_f sphere_skew_f = Some (Fin 8191)"
  by (simp add: candidate_f_def b32_ar_def ray_z_f_def sphere_skew_f_def vsub_f_def dot_f_def
      sub_32_def fin32_small fin32_26 fin32_tie_26 Let_def)

lemma candidate_graze_f: "candidate_f b32_ar ray_z_f sphere_graze_f = Some (Fin 0)"
  by (simp add: candidate_f_def b32_ar_def ray_z_f_def sphere_graze_f_def vsub_f_def dot_f_def
      sub_32_def fin32_small fin32_24 fin32_tie_24 Let_def)

text \<open>
  Claim C1, as the code has it.  \<^verbatim>\<open>trace\<close> starts from the distance \<open>FLT_MAX\<close> and the
  index \<^verbatim>\<open>-1U\<close>, and records a sphere when its candidate distance compares below the
  running minimum.  Whatever the arithmetic computes, on a scene of fewer than \<open>2 ^ 32\<close>
  spheres it returns.  The intersection it returns holds a candidate that compares below
  \<open>FLT_MAX\<close>; no sphere that passes the test has a candidate below it; and every sphere
  at a lower index that passes the test has a candidate above it, or NaN: on equal
  distances the lower index wins.  It returns no intersection exactly when no candidate
  compares below \<open>FLT_MAX\<close>, which is so for a sphere whose candidate is NaN.
\<close>

theorem trace_f_first_nearest:
  assumes "length spheres < 2 ^ 32"
  shows "(\<exists>n. trace_f ar ray spheres = Some (Some n) \<and>
            unat (sphere_index_f n) < length spheres \<and>
            candidate_f ar ray (spheres ! unat (sphere_index_f n)) = Some (distance_f n) \<and>
            flt (distance_f n) (Fin FLT_MAX) \<and>
            (\<forall>j<length spheres. \<forall>d. candidate_f ar ray (spheres ! j) = Some d \<longrightarrow>
               \<not> flt d (distance_f n) \<and>
               (j < unat (sphere_index_f n) \<longrightarrow> flt (distance_f n) d \<or> d = NaN)))
       \<or> (trace_f ar ray spheres = Some None \<and>
            (\<forall>j<length spheres. \<forall>d. candidate_f ar ray (spheres ! j) = Some d \<longrightarrow>
               \<not> flt d (Fin FLT_MAX)))"
  using assms by (rule trace_f_cases)

theorem trace_f_first_nearest_witness:
  "length [sphere_b_f, sphere_a_f] < 2 ^ 32 \<and>
   candidate_f b32_ar ray_z_f sphere_b_f = Some (Fin 4) \<and>
   candidate_f b32_ar ray_z_f sphere_a_f = Some (Fin 4) \<and>
   trace_f b32_ar ray_z_f [sphere_b_f, sphere_a_f] =
     Some (Some \<lparr>sphere_index_f = 0, distance_f = Fin 4\<rparr>)"
proof -
  let ?ss = "[sphere_b_f, sphere_a_f]"
  have len: "length ?ss < 2 ^ 32" by simp
  have cand: "candidate_f b32_ar ray_z_f (?ss ! j) = Some (Fin 4)" if "j < 2" for j
    using that by (auto simp: less_Suc_eq numeral_2_eq_2 candidate_a_f candidate_b_f)
  have "trace_f b32_ar ray_z_f ?ss = Some (Some \<lparr>sphere_index_f = 0, distance_f = Fin 4\<rparr>)"
    using trace_f_first_nearest [OF len, of b32_ar ray_z_f]
  proof (elim disjE exE conjE)
    fix n
    assume n: "trace_f b32_ar ray_z_f ?ss = Some (Some n)"
      and i: "unat (sphere_index_f n) < length ?ss"
      and c: "candidate_f b32_ar ray_z_f (?ss ! unat (sphere_index_f n)) = Some (distance_f n)"
      and m: "\<forall>j<length ?ss. \<forall>d. candidate_f b32_ar ray_z_f (?ss ! j) = Some d \<longrightarrow>
               \<not> flt d (distance_f n) \<and>
               (j < unat (sphere_index_f n) \<longrightarrow> flt (distance_f n) d \<or> d = NaN)"
    from i c cand [of "unat (sphere_index_f n)"] have d: "distance_f n = Fin 4" by simp
    from m d cand [of 0] have "unat (sphere_index_f n) = 0" by auto
    then have "sphere_index_f n = 0" by (simp add: unat_eq_0)
    with d have "n = \<lparr>sphere_index_f = 0, distance_f = Fin 4\<rparr>" by simp
    with n show ?thesis by simp
  next
    assume "\<forall>j<length ?ss. \<forall>d. candidate_f b32_ar ray_z_f (?ss ! j) = Some d \<longrightarrow>
        \<not> flt d (Fin FLT_MAX)"
    with cand [of 0] FLT_MAX_gt show ?thesis by auto
  qed
  with len show ?thesis by (simp add: candidate_a_f candidate_b_f)
qed

text \<open>
  The sphere \<open>sphere_huge_f\<close> is straight ahead of the ray.  It passes both tests, and
  its candidate distance is NaN: the two squares overflow to infinity and their
  difference is NaN.  \<^verbatim>\<open>trace\<close> returns no intersection, though a sphere passes the test.
\<close>

theorem trace_f_nan_counterexample:
  "candidate_f b32_ar ray_z_f sphere_huge_f = Some NaN \<and>
   trace_f b32_ar ray_z_f [sphere_huge_f] = Some None"
  by (simp add: trace_f_one candidate_huge_f)

section \<open>The per-sphere test of the floating-point trace\<close>

text \<open>
  Claim C2, as the code has it.  The body of the loop skips the sphere when \<open>proj < 0\<close>,
  skips it when \<open>d2 > r2\<close>, and otherwise compares \<open>proj - sqrt (r2 - d2)\<close> with the
  running minimum and records it when it is below, every operation as the arithmetic
  computes it.
\<close>

theorem trace_body_f_per_sphere_test:
  "let oc = vsub_f ar (center_f sphere) (origin_f ray);
       proj = dot_f ar (direction_f ray) oc;
       d2 = f_sub ar (dot_f ar oc oc) (f_mul ar proj proj);
       r2 = f_mul ar (radius_f sphere) (radius_f sphere);
       t = f_sub ar proj (f_sqrt ar (f_sub ar r2 d2))
   in (flt proj (Fin 0) \<longrightarrow> trace_body_f ar ray sphere i nearest = nearest) \<and>
      (\<not> flt proj (Fin 0) \<and> flt r2 d2 \<longrightarrow> trace_body_f ar ray sphere i nearest = nearest) \<and>
      (\<not> flt proj (Fin 0) \<and> \<not> flt r2 d2 \<longrightarrow>
         candidate_f ar ray sphere = Some t \<and>
         trace_body_f ar ray sphere i nearest =
           (if flt t (distance_f nearest)
            then \<lparr>sphere_index_f = i, distance_f = t\<rparr> else nearest))"
  by (simp add: trace_body_f_def candidate_f_def Let_def)

theorem trace_body_f_per_sphere_test_witness:
  "trace_body_f b32_ar ray_z_f sphere_a_f 7 \<lparr>sphere_index_f = - 1, distance_f = Fin FLT_MAX\<rparr> =
     \<lparr>sphere_index_f = 7, distance_f = Fin 4\<rparr> \<and>
   trace_body_f b32_ar ray_z_f sphere_aside_f 7 \<lparr>sphere_index_f = - 1, distance_f = Fin FLT_MAX\<rparr> =
     \<lparr>sphere_index_f = - 1, distance_f = Fin FLT_MAX\<rparr>"
proof -
  let ?init = "\<lparr>sphere_index_f = - 1, distance_f = Fin FLT_MAX\<rparr>"
  from trace_body_f_per_sphere_test [of b32_ar sphere_a_f ray_z_f 7 ?init]
  have "trace_body_f b32_ar ray_z_f sphere_a_f 7 ?init = \<lparr>sphere_index_f = 7, distance_f = Fin 4\<rparr>"
    using FLT_MAX_gt
    by (simp add: Let_def b32_ar_def ray_z_f_def sphere_a_f_def vsub_f_def dot_f_def sub_32_def
        fin32_small)
  moreover from trace_body_f_per_sphere_test [of b32_ar sphere_aside_f ray_z_f 7 ?init]
  have "trace_body_f b32_ar ray_z_f sphere_aside_f 7 ?init = ?init"
    by (simp add: Let_def b32_ar_def ray_z_f_def sphere_aside_f_def vsub_f_def dot_f_def
        sub_32_def fin32_small)
  ultimately show ?thesis by simp
qed

text \<open>
  The ray \<open>ray_z_f\<close> has a unit direction.  In binary32 the sum \<open>4 + 2 ^ 26\<close> rounds to
  \<open>2 ^ 26\<close>, so \<open>d2\<close> is 0 for \<open>sphere_skew_f\<close>: the sphere passes both tests and is
  recorded with the candidate distance 8191.  The point of the ray there is not on the
  sphere, and no point of the ray is: the sphere quadratic has no root.
\<close>

theorem candidate_not_root_counterexample:
  "dot (direction ray_z) (direction ray_z) = 1 \<and>
   candidate_f b32_ar ray_z_f sphere_skew_f = Some (Fin 8191) \<and>
   trace_body_f b32_ar ray_z_f sphere_skew_f 0 \<lparr>sphere_index_f = - 1, distance_f = Fin FLT_MAX\<rparr> =
     \<lparr>sphere_index_f = 0, distance_f = Fin 8191\<rparr> \<and>
   \<not> on_sphere ray_z sphere_skew 8191 \<and>
   line_distance2 ray_z sphere_skew = 4 \<and>
   radius sphere_skew * radius sphere_skew = 1"
proof -
  have "dot (direction ray_z) (direction ray_z) = 1"
    by (simp add: ray_z_def dot_def)
  moreover have "\<not> on_sphere ray_z sphere_skew 8191"
    by (simp add: on_sphere_def ray_z_def sphere_skew_def vsub_def vadd_def vscale_def dot_def)
  moreover have "line_distance2 ray_z sphere_skew = 4"
    by (simp add: line_distance2_def ray_z_def sphere_skew_def vsub_def dot_def)
  moreover have "radius sphere_skew * radius sphere_skew = 1"
    by (simp add: sphere_skew_def)
  ultimately show ?thesis
    using FLT_MAX_large by (simp add: trace_body_candidate_f candidate_skew_f)
qed

section \<open>What the floating-point trace returns\<close>

lemma trace_f_Some_Some:
  assumes "trace_f ar ray spheres = Some (Some n)"
  shows "unat (sphere_index_f n) < length spheres"
    and "candidate_f ar ray (spheres ! unat (sphere_index_f n)) = Some (distance_f n)"
    and "flt (distance_f n) (Fin FLT_MAX)"
  using trace_f_cases [OF trace_f_Some_bound [OF assms], of ar ray] assms by auto

lemma trace_f_a:
  "trace_f b32_ar ray_z_f [sphere_a_f] = Some (Some \<lparr>sphere_index_f = 0, distance_f = Fin 4\<rparr>)"
  using FLT_MAX_gt by (simp add: trace_f_one candidate_a_f)

text \<open>
  Claim C4, as the code has it.  The distance that \<^verbatim>\<open>trace\<close> returns is the candidate
  distance \<open>proj - sqrt (r2 - d2)\<close> of the sphere it returns, for which neither
  \<open>proj < 0\<close> nor \<open>d2 > r2\<close> holds, and it compares below \<open>FLT_MAX\<close>, so it is not NaN.
  Its sign is not tested.
\<close>

theorem trace_f_distance:
  assumes "trace_f ar ray spheres = Some (Some n)"
  shows
    "let sphere = spheres ! unat (sphere_index_f n);
         oc = vsub_f ar (center_f sphere) (origin_f ray);
         proj = dot_f ar (direction_f ray) oc;
         d2 = f_sub ar (dot_f ar oc oc) (f_mul ar proj proj);
         r2 = f_mul ar (radius_f sphere) (radius_f sphere)
     in unat (sphere_index_f n) < length spheres \<and>
        \<not> flt proj (Fin 0) \<and> \<not> flt r2 d2 \<and>
        distance_f n = f_sub ar proj (f_sqrt ar (f_sub ar r2 d2)) \<and>
        flt (distance_f n) (Fin FLT_MAX) \<and> distance_f n \<noteq> NaN"
proof -
  from trace_f_Some_Some [OF assms]
  have i: "unat (sphere_index_f n) < length spheres"
    and c: "candidate_f ar ray (spheres ! unat (sphere_index_f n)) = Some (distance_f n)"
    and b: "flt (distance_f n) (Fin FLT_MAX)" .
  from b have "distance_f n \<noteq> NaN" by (auto simp: flt_NaN)
  with i b c show ?thesis
    by (auto simp: candidate_f_def Let_def split: if_splits)
qed

theorem trace_f_distance_witness:
  "trace_f b32_ar ray_z_f [sphere_a_f] =
     Some (Some \<lparr>sphere_index_f = 0, distance_f = Fin 4\<rparr>) \<and>
   flt (Fin 4) (Fin FLT_MAX) \<and>
   f_sub b32_ar (Fin 5) (f_sqrt b32_ar (f_sub b32_ar (Fin 1) (Fin 0))) = Fin 4"
proof -
  have v: "dot_f b32_ar (direction_f ray_z_f)
        (vsub_f b32_ar (center_f sphere_a_f) (origin_f ray_z_f)) = Fin 5"
      "dot_f b32_ar (vsub_f b32_ar (center_f sphere_a_f) (origin_f ray_z_f))
        (vsub_f b32_ar (center_f sphere_a_f) (origin_f ray_z_f)) = Fin 25"
      "radius_f sphere_a_f = Fin 1"
    by (simp_all add: b32_ar_def ray_z_f_def sphere_a_f_def vsub_f_def dot_f_def sub_32_def fin32_small)
  have m: "f_mul b32_ar (Fin 5) (Fin 5) = Fin 25" "f_mul b32_ar (Fin 1) (Fin 1) = Fin 1"
      "f_sub b32_ar (Fin 25) (Fin 25) = Fin 0"
    by (simp_all add: b32_ar_def sub_32_def fin32_small)
  have t: "f_sub b32_ar (Fin 5) (f_sqrt b32_ar (f_sub b32_ar (Fin 1) (Fin 0))) = Fin 4"
    by (simp add: b32_ar_def sub_32_def fin32_small)
  from trace_f_distance [OF trace_f_a] have "flt (Fin 4) (Fin FLT_MAX)"
    by (simp add: Let_def v m t)
  with t trace_f_a show ?thesis by blast
qed

text \<open>
  Nor is the distance positive whenever the origin lies outside the sphere.  The origin
  of \<open>ray_z\<close> is outside \<open>sphere_graze\<close>, the square of its distance to the centre being
  \<open>2 ^ 24 + 1\<close> and the square of the radius \<open>2 ^ 24\<close>; in binary32 the first rounds to the
  second, and \<^verbatim>\<open>trace\<close> returns the distance 0.
\<close>

lemma outside_distance_zero:
  "outside (origin ray_z) sphere_graze \<and>
   trace_f b32_ar ray_z_f [sphere_graze_f] =
     Some (Some \<lparr>sphere_index_f = 0, distance_f = Fin 0\<rparr>)"
proof -
  have "outside (origin ray_z) sphere_graze"
    by (simp add: outside_def ray_z_def sphere_graze_def vsub_def dot_def)
  then show ?thesis
    using FLT_MAX_gt by (simp add: trace_f_one candidate_graze_f)
qed

section \<open>Rays that the floating-point trace misses\<close>

lemma ray_cast_f_miss:
  "trace_f ar ray spheres = Some None \<Longrightarrow>
   ray_cast_f ar ray spheres = Some (Vec3_f (Fin 0) (Fin 0) (Fin 0))"
  by (simp add: ray_cast_f_def)

text \<open>
  Claim C7, as the code has it.  A ray for which no sphere of the scene has a candidate
  distance that compares below \<open>FLT_MAX\<close>, every sphere being skipped by the per-sphere
  test or left with a NaN: \<^verbatim>\<open>trace\<close> returns the empty optional and \<^verbatim>\<open>ray_cast\<close> returns
  the colour \<open>(0, 0, 0)\<close>.  On the empty scene this is every ray.  Both calls return, the
  scene having fewer than \<open>2 ^ 32\<close> spheres.
\<close>

theorem miss_f_returns_background:
  assumes "length spheres < 2 ^ 32"
    and "\<forall>s\<in>set spheres. \<forall>d. candidate_f ar ray s = Some d \<longrightarrow> \<not> flt d (Fin FLT_MAX)"
  shows "trace_f ar ray spheres = Some None \<and>
     ray_cast_f ar ray spheres = Some (Vec3_f (Fin 0) (Fin 0) (Fin 0))"
proof -
  from trace_f_cases [OF assms(1), of ar ray] have "trace_f ar ray spheres = Some None"
  proof (elim disjE exE conjE)
    fix n
    assume "unat (sphere_index_f n) < length spheres"
      and "candidate_f ar ray (spheres ! unat (sphere_index_f n)) = Some (distance_f n)"
      and "flt (distance_f n) (Fin FLT_MAX)"
    with assms(2) show ?thesis by (metis nth_mem)
  qed
  then show ?thesis by (simp add: ray_cast_f_miss)
qed

theorem miss_f_returns_background_witness:
  "length [sphere_aside_f] < 2 ^ 32 \<and>
   candidate_f b32_ar ray_z_f sphere_aside_f = None \<and>
   trace_f b32_ar ray_z_f [sphere_aside_f] = Some None \<and>
   ray_cast_f b32_ar ray_z_f [sphere_aside_f] = Some (Vec3_f (Fin 0) (Fin 0) (Fin 0)) \<and>
   trace_f b32_ar ray_z_f [] = Some None \<and>
   ray_cast_f b32_ar ray_z_f [] = Some (Vec3_f (Fin 0) (Fin 0) (Fin 0))"
proof -
  have len: "length [sphere_aside_f] < 2 ^ 32" by simp
  have m: "\<forall>s\<in>set [sphere_aside_f]. \<forall>d. candidate_f b32_ar ray_z_f s = Some d \<longrightarrow>
      \<not> flt d (Fin FLT_MAX)"
    by (simp add: candidate_aside_f)
  from miss_f_returns_background [OF len m]
    miss_f_returns_background [of "[]" b32_ar ray_z_f] len
  show ?thesis by (simp add: candidate_aside_f)
qed

lemma ray_point_expand_any:
  "dot (vsub (vadd p (vscale d t)) c) (vsub (vadd p (vscale d t)) c) =
     dot d d * t\<^sup>2 - 2 * t * dot d (vsub c p) + dot (vsub c p) (vsub c p)"
proof -
  obtain px py pz where p: "p = Vec3 px py pz" by (cases p)
  obtain dx dy dz where d: "d = Vec3 dx dy dz" by (cases d)
  obtain cx cy cz where c: "c = Vec3 cx cy cz" by (cases c)
  have "(px + dx * t - cx) * (px + dx * t - cx) + (py + dy * t - cy) * (py + dy * t - cy)
        + (pz + dz * t - cz) * (pz + dz * t - cz)
      = (dx * dx + dy * dy + dz * dz) * t\<^sup>2
        - 2 * t * (dx * (cx - px) + dy * (cy - py) + dz * (cz - pz))
        + ((cx - px) * (cx - px) + (cy - py) * (cy - py) + (cz - pz) * (cz - pz))"
    by (simp add: algebra_simps power2_eq_square)
  then show ?thesis
    by (simp only: p d c vsub_def vadd_def vscale_def dot_def vec3.sel)
qed

text \<open>
  A sphere whose centre is farther from the line of the ray than its radius has no point
  on the ray.
\<close>

lemma line_distance_miss:
  assumes D: "0 < dot (direction ray) (direction ray)"
    and far: "radius sphere * radius sphere < line_distance2 ray sphere"
  shows "\<not> on_sphere ray sphere t"
proof
  let ?D = "dot (direction ray) (direction ray)"
  let ?oc = "vsub (center sphere) (origin ray)"
  let ?p = "dot (direction ray) ?oc"
  assume "on_sphere ray sphere t"
  then have on: "?D * t\<^sup>2 - 2 * t * ?p + dot ?oc ?oc = radius sphere * radius sphere"
    by (simp only: on_sphere_def Let_def ray_point_expand_any)
  have "0 \<le> (?D * t - ?p)\<^sup>2 / ?D" using D by simp
  also have "(?D * t - ?p)\<^sup>2 / ?D = ?D * t\<^sup>2 - 2 * t * ?p + ?p\<^sup>2 / ?D"
    using D by (simp add: power2_eq_square field_simps)
  finally have "dot ?oc ?oc - ?p\<^sup>2 / ?D \<le> ?D * t\<^sup>2 - 2 * t * ?p + dot ?oc ?oc" by simp
  with far on show False by (simp add: line_distance2_def Let_def)
qed

text \<open>
  The ray \<open>ray_z_f\<close> has a unit direction and no point on \<open>sphere_skew_f\<close>: its axis
  passes the centre at the distance 2, and the radius is 1.  In binary32 the sum
  \<open>4 + 2 ^ 26\<close> rounds to \<open>2 ^ 26\<close>, and \<^verbatim>\<open>trace\<close> returns the sphere at the distance
  8191.
\<close>

theorem miss_hit_counterexample:
  "dot (direction ray_z) (direction ray_z) = 1 \<and>
   line_distance2 ray_z sphere_skew = 4 \<and>
   radius sphere_skew * radius sphere_skew = 1 \<and>
   \<not> on_sphere ray_z sphere_skew 8191 \<and>
   trace_f b32_ar ray_z_f [sphere_skew_f] =
     Some (Some \<lparr>sphere_index_f = 0, distance_f = Fin 8191\<rparr>)"
proof -
  have "trace_f b32_ar ray_z_f [sphere_skew_f] =
      Some (Some \<lparr>sphere_index_f = 0, distance_f = Fin 8191\<rparr>)"
    using FLT_MAX_large by (simp add: trace_f_one candidate_skew_f)
  moreover have l: "line_distance2 ray_z sphere_skew = 4"
    by (simp add: line_distance2_def ray_z_def sphere_skew_def vsub_def dot_def)
  moreover have D: "dot (direction ray_z) (direction ray_z) = 1"
    by (simp add: ray_z_def dot_def)
  moreover have r: "radius sphere_skew * radius sphere_skew = 1"
    by (simp add: sphere_skew_def)
  moreover have "\<not> on_sphere ray_z sphere_skew 8191"
    by (rule line_distance_miss) (simp_all add: l r D)
  ultimately show ?thesis by simp
qed

section \<open>The sphere that the floating-point trace returns\<close>

text \<open>
  Claim C8, as the code has it.  Take any sphere of the scene, such as one at whose
  centre the ray is aimed from outside.  When it passes the per-sphere test with a
  candidate distance that compares below \<open>FLT_MAX\<close>, no sphere of the scene has a
  candidate below that distance, and every sphere at a lower index has a candidate above
  it or NaN, \<^verbatim>\<open>trace\<close> returns that sphere at that candidate distance.
\<close>

theorem trace_f_returns_sphere:
  assumes "length spheres < 2 ^ 32" and "k < length spheres"
    and "candidate_f ar ray (spheres ! k) = Some d"
    and "flt d (Fin FLT_MAX)"
    and "\<forall>j<length spheres. \<forall>e. candidate_f ar ray (spheres ! j) = Some e \<longrightarrow>
           \<not> flt e d \<and> (j < k \<longrightarrow> flt d e \<or> e = NaN)"
  shows "trace_f ar ray spheres = Some (Some \<lparr>sphere_index_f = of_nat k, distance_f = d\<rparr>)"
proof -
  from trace_f_cases [OF assms(1), of ar ray] show ?thesis
  proof (elim disjE exE conjE)
    fix n
    assume n: "trace_f ar ray spheres = Some (Some n)"
      and i: "unat (sphere_index_f n) < length spheres"
      and c: "candidate_f ar ray (spheres ! unat (sphere_index_f n)) = Some (distance_f n)"
      and b: "flt (distance_f n) (Fin FLT_MAX)"
      and m: "\<forall>j<length spheres. \<forall>e. candidate_f ar ray (spheres ! j) = Some e \<longrightarrow>
               \<not> flt e (distance_f n) \<and>
               (j < unat (sphere_index_f n) \<longrightarrow> flt (distance_f n) e \<or> e = NaN)"
    from m assms(2,3) have nd: "\<not> flt d (distance_f n)"
      and tie: "k < unat (sphere_index_f n) \<longrightarrow> flt (distance_f n) d \<or> d = NaN" by auto
    from assms(5) i c have dn: "\<not> flt (distance_f n) d"
      and tie': "unat (sphere_index_f n) < k \<longrightarrow> flt d (distance_f n) \<or> distance_f n = NaN"
      by auto
    from assms(4) have "d \<noteq> NaN" by (auto simp: flt_NaN)
    moreover from b have "distance_f n \<noteq> NaN" by (auto simp: flt_NaN)
    ultimately have u: "unat (sphere_index_f n) = k"
      using nd dn tie tie' by (cases "unat (sphere_index_f n)" k rule: linorder_cases) auto
    with c assms(3) have d: "distance_f n = d" by simp
    have "of_nat (unat (sphere_index_f n)) = sphere_index_f n" by simp
    then have "of_nat k = sphere_index_f n" unfolding u .
    with d have "n = \<lparr>sphere_index_f = of_nat k, distance_f = d\<rparr>" by simp
    with n show ?thesis by simp
  next
    assume "\<forall>j<length spheres. \<forall>e. candidate_f ar ray (spheres ! j) = Some e \<longrightarrow>
        \<not> flt e (Fin FLT_MAX)"
    with assms(2,3,4) show ?thesis by blast
  qed
qed

lemma candidate_far_f: "candidate_f b32_ar ray_z_f sphere_far_f = Some (Fin 99)"
  by (simp add: candidate_f_def b32_ar_def ray_z_f_def sphere_far_f_def vsub_f_def dot_f_def
      sub_32_def fin32_small)

theorem trace_f_returns_sphere_witness:
  "length [sphere_far_f, sphere_a_f, sphere_b_f] < 2 ^ 32 \<and>
   candidate_f b32_ar ray_z_f sphere_far_f = Some (Fin 99) \<and>
   candidate_f b32_ar ray_z_f sphere_a_f = Some (Fin 4) \<and>
   candidate_f b32_ar ray_z_f sphere_b_f = Some (Fin 4) \<and>
   flt (Fin 4) (Fin FLT_MAX) \<and>
   trace_f b32_ar ray_z_f [sphere_far_f, sphere_a_f, sphere_b_f] =
     Some (Some \<lparr>sphere_index_f = 1, distance_f = Fin 4\<rparr>)"
proof -
  let ?ss = "[sphere_far_f, sphere_a_f, sphere_b_f]"
  have len: "length ?ss < 2 ^ 32" and k: "1 < length ?ss" by simp_all
  have c: "candidate_f b32_ar ray_z_f (?ss ! 1) = Some (Fin 4)"
    by (simp add: candidate_a_f)
  have b: "flt (Fin 4) (Fin FLT_MAX)" using FLT_MAX_gt by simp
  have others: "\<forall>j<length ?ss. \<forall>e. candidate_f b32_ar ray_z_f (?ss ! j) = Some e \<longrightarrow>
           \<not> flt e (Fin 4) \<and> (j < 1 \<longrightarrow> flt (Fin 4) e \<or> e = NaN)"
    by (auto simp: less_Suc_eq numeral_3_eq_3 candidate_a_f candidate_b_f candidate_far_f)
  from trace_f_returns_sphere [OF len k c b others] len b show ?thesis
    by (simp add: candidate_a_f candidate_b_f candidate_far_f)
qed

end
